theory Spec2Isabelle
  imports Complex_Main "HOL-Library.Word" "HOL-Library.AList"
begin

unbundle bit_operations_syntax

section \<open>JavaScript values and operators used by the tile-map code\<close>

text \<open>
  The tileset code works on pixel counts and tile ids. These JavaScript numbers are
  modelled as mathematical integers (\<open>int\<close>): a double represents every integer of
  magnitude below \<open>2 ^ 53\<close> exactly, and image sizes and gids stay far below that.
  The map code multiplies sizes by the \<open>scale\<close> custom property, which may be a
  fraction such as 0.5 or 0.1; there a finite number is a rational and every product is
  rounded to a double, as the operator \<open>*\<close> does.
\<close>

text \<open>
  The bitwise operators \<open>&\<close>, \<open>|\<close> and \<open>~\<close> convert their operands with ToInt32
  (wrap modulo \<open>2 ^ 32\<close>), work on the 32 bits and give a signed 32-bit result.
\<close>

definition ToInt32 :: "int \<Rightarrow> 32 word" where
  "ToInt32 n = word_of_int n"

definition js_and :: "int \<Rightarrow> int \<Rightarrow> int" where
  "js_and a b = sint (ToInt32 a AND ToInt32 b)"

definition js_or :: "int \<Rightarrow> int \<Rightarrow> int" where
  "js_or a b = sint (ToInt32 a OR ToInt32 b)"

definition js_not :: "int \<Rightarrow> int" where
  "js_not a = sint (NOT (ToInt32 a))"

text \<open>
  \<open>~~(a / b)\<close>: the quotient of two numbers, truncated towards zero and wrapped to a
  signed 32-bit integer. Dividing by zero gives an infinity or NaN, which \<open>~~\<close> turns
  into 0.
\<close>

definition trunc_quot :: "int \<Rightarrow> int \<Rightarrow> int" where
  "trunc_quot a b = sgn a * sgn b * (\<bar>a\<bar> div \<bar>b\<bar>)"

definition tilde_tilde_div :: "int \<Rightarrow> int \<Rightarrow> int" where
  "tilde_tilde_div a b = (if b = 0 then 0 else sint (ToInt32 (trunc_quot a b)))"

text \<open>
  Property values after \<open>gf.utils.parseTiledProperties\<close>: booleans, numbers and strings.
  An object is the list of its own properties in insertion order; reading a missing
  property gives \<open>None\<close> (\<open>undefined\<close>).
\<close>

datatype jsval = JBool bool | JNum rat | JStr string

type_synonym jsobj = "(string \<times> jsval) list"

fun truthy :: "jsval \<Rightarrow> bool" where
  "truthy (JBool b) = b"
| "truthy (JNum r) = (r \<noteq> 0)"
| "truthy (JStr s) = (s \<noteq> [])"

text \<open>\<open>v || d\<close> for a property read \<open>v\<close> that may be \<open>undefined\<close>.\<close>

definition or_else :: "jsval option \<Rightarrow> jsval \<Rightarrow> jsval" where
  "or_else v d = (case v of None \<Rightarrow> d | Some x \<Rightarrow> if truthy x then x else d)"

text \<open>\<open>n || 0\<close> for a number \<open>n\<close> that may be \<open>undefined\<close>.\<close>

definition or_zero :: "int option \<Rightarrow> int" where
  "or_zero v = (case v of None \<Rightarrow> 0 | Some n \<Rightarrow> if n \<noteq> 0 then n else 0)"

text \<open>
  What a function hands back: \<open>null\<close>, \<open>undefined\<close> (also the result of reading an
  array beyond its end, and of a function that ends without \<open>return\<close>), or a value.
\<close>

datatype 'a ret = Null | Undefined | Val 'a

fun isNone :: "'a ret \<Rightarrow> bool" where
  "isNone Null = True"
| "isNone Undefined = True"
| "isNone (Val v) = False"

datatype exn = Throw string

text \<open>
  A number of the map code: NaN, an infinity, or a finite value (the two zeros are one
  value). A numeric field of a description and a numeric property value are written as
  rationals; each stands for the double nearest to it (itself when it is a double), as
  the parser of the description reads a numeric literal. A literal other than 0 that
  is too small to have a double other than 0 does not occur.
\<close>

datatype number = NaN | PosInf | NegInf | Fin rat

text \<open>The number of binary digits of a positive integer.\<close>

function bit_length :: "int \<Rightarrow> nat" where
  "bit_length n = (if n \<le> 0 then 0 else Suc (bit_length (n div 2)))"
  by pat_completeness auto
termination
  by (relation "measure nat") auto

declare bit_length.simps [simp del]

text \<open>For a positive \<open>x\<close>, the exponent \<open>k\<close> with \<open>2 ^ k \<le> x < 2 ^ (k + 1)\<close>.\<close>

definition ilog2 :: "rat \<Rightarrow> int" where
  "ilog2 x =
     (if 1 \<le> x then int (bit_length \<lfloor>x\<rfloor>) - 1
      else - int (bit_length (\<lceil>1 / x\<rceil> - 1)))"

text \<open>The nearest integer, the even one of the two when they are equally near.\<close>

definition round_half_even :: "rat \<Rightarrow> int" where
  "round_half_even x =
     (let f = \<lfloor>x\<rfloor>; d = x - of_int f
      in if d < 1 / 2 then f
         else if 1 / 2 < d then f + 1
         else if even f then f else f + 1)"

text \<open>
  The double nearest to an exact value (IEEE 754 binary64, round to nearest, ties to
  even): 53 significant bits, a step of \<open>2 ^ - 1074\<close> below \<open>2 ^ - 1022\<close>, and an
  infinity when the rounded value reaches \<open>2 ^ 1024\<close>.
\<close>

definition to_double :: "rat \<Rightarrow> number" where
  "to_double x =
     (if x = 0 then Fin 0
      else
        let e = max (ilog2 \<bar>x\<bar> - 52) (- 1074);
            y = of_int (round_half_even (\<bar>x\<bar> / 2 powi e)) * 2 powi e
        in if 2 ^ 1024 \<le> y then (if 0 < x then PosInf else NegInf)
           else Fin (sgn x * y))"

text \<open>An infinity times a finite factor with the sign of \<open>s\<close>; zero times infinity is NaN.\<close>

definition signed_infinity :: "rat \<Rightarrow> number" where
  "signed_infinity s = (if s = 0 then NaN else if 0 < s then PosInf else NegInf)"

text \<open>The operator \<open>*\<close> on two numbers.\<close>

fun js_times :: "number \<Rightarrow> number \<Rightarrow> number" where
  "js_times NaN y = NaN"
| "js_times x NaN = NaN"
| "js_times (Fin a) (Fin b) = to_double (a * b)"
| "js_times (Fin a) PosInf = signed_infinity a"
| "js_times (Fin a) NegInf = signed_infinity (- a)"
| "js_times PosInf (Fin b) = signed_infinity b"
| "js_times NegInf (Fin b) = signed_infinity (- b)"
| "js_times PosInf PosInf = PosInf"
| "js_times PosInf NegInf = NegInf"
| "js_times NegInf PosInf = NegInf"
| "js_times NegInf NegInf = PosInf"

section \<open>The collaborators outside the two source files\<close>

text \<open>
  \<open>gf.assetCache\<close> maps a key to a preloaded texture; of the texture only the pixel size
  of its base image (\<open>baseTexture.source.width\<close> and \<open>height\<close>) is read.
  \<open>gf.utils.parseTiledProperties\<close> is not part of the two files: it is a parameter, a
  function from a property object (or \<open>undefined\<close>) to the typed one. \<open>StringToNumber\<close>
  is the language's conversion of a string operand of \<open>*\<close> to a number.
\<close>

record baseTexture =
  source_width :: int
  source_height :: int

record env =
  assetCache :: "string \<rightharpoonup> baseTexture"
  parseTiledProperties :: "jsobj option \<Rightarrow> jsobj option"
  StringToNumber :: "string \<Rightarrow> number"

section \<open>TiledTileset.js\<close>

definition FlippedX :: int where "FlippedX = 0x80000000"
definition FlippedY :: int where "FlippedY = 0x40000000"
definition RotatedCW :: int where "RotatedCW = 0x20000000"

text \<open>The tileset descriptor \<open>settings\<close>; optional fields are \<open>None\<close> when absent.\<close>

record tileset_settings =
  s_name :: string
  s_firstgid :: int
  s_tilewidth :: int
  s_tileheight :: int
  s_spacing :: "int option"
  s_margin :: "int option"
  s_tileoffset :: "(int \<times> int) option"
  s_imagewidth :: int
  s_imageheight :: int
  s_properties :: "jsobj option"
  s_tileproperties :: "(int \<rightharpoonup> jsobj) option"

text \<open>
  A tile texture is the rectangle \<open>(x, y, width, height)\<close> it cuts out of the base
  texture. The keys of \<open>tileproperties\<close> are local tile indices.
\<close>

type_synonym rectangle = "int \<times> int \<times> int \<times> int"

record tileset =
  base :: baseTexture
  firstgid :: int
  tsname :: string
  tileSize :: "int \<times> int"
  spacing :: int
  margin :: int
  tileoffset :: "int \<times> int"
  numTiles :: "int \<times> int"
  lastgid :: int
  properties :: "jsobj option"
  tileproperties :: "int \<rightharpoonup> jsobj"
  imageSize :: "int \<times> int"
  textures :: "rectangle list"

definition preload_message :: string where
  "preload_message =
     ''You must preload the tileset images! Try loading the world file with the AssetLoader''"

text \<open>Lines 85-88: the grid of tiles in the image.\<close>

definition numTiles_of :: "int \<Rightarrow> int \<Rightarrow> int \<Rightarrow> int \<Rightarrow> int" where
  "numTiles_of extent mrg tile spc = tilde_tilde_div (extent - mrg) (tile - spc)"

text \<open>Line 96: \<open>firstgid + (((numTiles.x * numTiles.y) - 1) || 0)\<close>.\<close>

definition lastgid_of :: "int \<Rightarrow> int \<times> int \<Rightarrow> int" where
  "lastgid_of fg nt =
     fg + (if fst nt * snd nt - 1 \<noteq> 0 then fst nt * snd nt - 1 else 0)"

text \<open>Lines 141-153: the rectangle of local tile \<open>t\<close>.\<close>

definition tile_rectangle :: "int \<times> int \<Rightarrow> int \<times> int \<Rightarrow> int \<Rightarrow> int \<Rightarrow> int \<Rightarrow> rectangle" where
  "tile_rectangle nt tsz spc mrg t =
     (let y = tilde_tilde_div t (fst nt);
          x = t - y * fst nt;
          x' = x * fst tsz + x * spc + mrg;
          y' = y * snd tsz + y * spc + mrg
      in (x', y', fst tsz, snd tsz))"

text \<open>
  The constructor. The massaged entry of a tile is kept when the parser returns an
  object; an entry it turns into a falsy value reads like a missing one afterwards.
\<close>

definition TiledTileset :: "env \<Rightarrow> tileset_settings \<Rightarrow> exn + tileset" where
  "TiledTileset e settings =
     (case assetCache e (s_name settings @ ''_texture'') of
        None \<Rightarrow> Inl (Throw preload_message)
      | Some bt \<Rightarrow>
          let fg = s_firstgid settings;
              tsz = (s_tilewidth settings, s_tileheight settings);
              spc = or_zero (s_spacing settings);
              mrg = or_zero (s_margin settings);
              toff = (case s_tileoffset settings of None \<Rightarrow> (0, 0) | Some p \<Rightarrow> p);
              nt = (numTiles_of (source_width bt) mrg (fst tsz) spc,
                    numTiles_of (source_height bt) mrg (snd tsz) spc);
              lg = lastgid_of fg nt;
              props = (case s_properties settings of None \<Rightarrow> [] | Some p \<Rightarrow> p);
              tprops = (case s_tileproperties settings of None \<Rightarrow> Map.empty | Some m \<Rightarrow> m)
          in Inr \<lparr> base = bt, firstgid = fg, tsname = s_name settings, tileSize = tsz,
                   spacing = spc, margin = mrg, tileoffset = toff, numTiles = nt,
                   lastgid = lg,
                   properties = parseTiledProperties e (Some props),
                   tileproperties =
                     (\<lambda>k. case tprops k of None \<Rightarrow> None
                          | Some p \<Rightarrow> parseTiledProperties e (Some p)),
                   imageSize = (s_imagewidth settings, s_imageheight settings),
                   textures = map (tile_rectangle nt tsz spc mrg) [0..lg - fg] \<rparr>)"

text \<open>Lines 169-175: the flag bits of a gid, and the gid without them.\<close>

definition flag_mask :: int where
  "flag_mask = js_not (js_or (js_or FlippedX FlippedY) RotatedCW)"

definition unflag :: "int \<Rightarrow> int" where
  "unflag tileId = js_and tileId flag_mask"

text \<open>
  Modelled from the spec: \<open>gf.Tile.TYPE.NONE\<close> is a constant of \<open>gf.Tile\<close>, which is
  not among the source files; the spec calls the value \<open>NONE\<close>.
\<close>

definition Tile_TYPE_NONE :: jsval where
  "Tile_TYPE_NONE = JStr ''NONE''"

definition default_properties :: jsobj where
  "default_properties =
     [(''collidable'', JBool False), (''breakable'', JBool False), (''type'', Tile_TYPE_NONE)]"

text \<open>
  \<open>getTileProperties\<close>. In the source \<open>props\<close> is a reference to the object stored in
  \<open>this.tileproperties[tileId]\<close> (the authored one, or the default just stored), so the
  three assignments to \<open>props.flippedX\<close>, \<open>props.flippedY\<close> and \<open>props.rotatedCW\<close>
  write into that stored object. The model returns the object and the tileset whose
  entry holds it.
\<close>

definition getTileProperties :: "tileset \<Rightarrow> int option \<Rightarrow> jsobj ret \<times> tileset" where
  "getTileProperties ts tileId =
     (case tileId of
        None \<Rightarrow> (Null, ts)
      | Some g \<Rightarrow>
          let flippedX = js_and g FlippedX;
              flippedY = js_and g FlippedY;
              rotatedCW = js_and g RotatedCW;
              t = unflag g - firstgid ts
          in if t < 0 then (Null, ts)
             else
               let props = (case tileproperties ts t of Some p \<Rightarrow> p
                            | None \<Rightarrow> default_properties);
                   props1 = AList.update ''flippedX'' (JNum (of_int flippedX)) props;
                   props2 = AList.update ''flippedY'' (JNum (of_int flippedY)) props1;
                   props3 = AList.update ''rotatedCW'' (JNum (of_int rotatedCW)) props2
               in (Val props3, ts\<lparr>tileproperties := (tileproperties ts)(t \<mapsto> props3)\<rparr>))"

definition getTileTexture :: "tileset \<Rightarrow> int option \<Rightarrow> rectangle ret" where
  "getTileTexture ts tileId =
     (case tileId of
        None \<Rightarrow> Null
      | Some g \<Rightarrow>
          let t = unflag g - firstgid ts
          in if t < 0 then Null
             else if t < int (length (textures ts)) then Val (textures ts ! nat t)
             else Undefined)"

definition contains :: "tileset \<Rightarrow> int option \<Rightarrow> bool" where
  "contains ts tileId =
     (case tileId of
        None \<Rightarrow> False
      | Some g \<Rightarrow> unflag g \<ge> firstgid ts \<and> unflag g \<le> lastgid ts)"

section \<open>TiledMap.js\<close>

text \<open>
  The map description. Of a layer descriptor the constructor reads only \<open>type\<close>; the
  rest of the descriptor goes to the layer's own constructor unread.
\<close>

record layer =
  ltype :: string
  lname :: string

record map_description =
  d_properties :: "jsobj option"
  d_tilewidth :: rat
  d_tileheight :: rat
  d_width :: rat
  d_height :: rat
  d_orientation :: string
  d_version :: rat
  d_backgroundColor :: "jsval option"
  d_tilesets :: "tileset_settings list"
  d_layers :: "layer list"

text \<open>
  The layer nodes are built by \<open>gf.TiledLayer\<close>, \<open>gf.TiledObjectGroup\<close> and
  \<open>gf.ImageLayer\<close>, each from the descriptor; a node is the constructor and its argument.
\<close>

datatype node = TiledLayer layer | TiledObjectGroup layer | ImageLayer layer

text \<open>The conversion of an operand of \<open>*\<close> to a number.\<close>

definition ToNumber :: "env \<Rightarrow> jsval \<Rightarrow> number" where
  "ToNumber e v =
     (case v of JBool b \<Rightarrow> Fin (if b then 1 else 0)
      | JNum r \<Rightarrow> to_double r
      | JStr s \<Rightarrow> StringToNumber e s)"

text \<open>
  Modelled from the spec: the base constructor \<open>gf.Map\<close> is not among the source files;
  it leaves the map size in tiles, read from the description's \<open>width\<close> and \<open>height\<close>,
  in \<open>this.size\<close>.
\<close>

definition Map_size :: "map_description \<Rightarrow> rat \<times> rat" where
  "Map_size m = (d_width m, d_height m)"

text \<open>
  \<open>children\<close> records the arguments of the calls of \<open>this.addChild\<close> in order
  (\<open>None\<close> for \<open>undefined\<close>); \<open>addChild\<close> itself belongs to the scene graph.
\<close>

record tiledmap =
  m_size :: "rat \<times> rat"
  m_properties :: jsobj
  m_scale :: "jsval \<times> jsval"
  m_tileSize :: "rat \<times> rat"
  m_orientation :: string
  m_version :: rat
  m_backgroundColor :: "jsval option"
  m_tilesets :: "tileset list"
  m_scaledTileSize :: "number \<times> number"
  m_realSize :: "number \<times> number"
  m_children :: "node option list"
  m_showPhysics :: bool

text \<open>Lines 97-99: the tilesets, in input order; a throw leaves the loop and the constructor.\<close>

fun build_tilesets :: "env \<Rightarrow> tileset_settings list \<Rightarrow> tileset list \<Rightarrow> exn + tileset list" where
  "build_tilesets e [] acc = Inr acc"
| "build_tilesets e (s # ss) acc =
     (case TiledTileset e s of
        Inl x \<Rightarrow> Inl x
      | Inr ts \<Rightarrow> build_tilesets e ss (acc @ [ts]))"

text \<open>
  Lines 101-119. \<open>var lyr\<close> is declared in the loop body without an initialiser, so it
  is one variable of the whole function, \<open>undefined\<close> before the first assignment and
  keeping its value from one iteration to the next. The \<open>switch\<close> has no default case,
  and \<open>this.addChild(lyr)\<close> follows it on every iteration.
\<close>

definition layer_switch :: "layer \<Rightarrow> node option \<Rightarrow> node option" where
  "layer_switch l lyr =
     (if ltype l = ''tilelayer'' then Some (TiledLayer l)
      else if ltype l = ''objectgroup'' then Some (TiledObjectGroup l)
      else if ltype l = ''imagelayer'' then Some (ImageLayer l)
      else lyr)"

fun add_layers :: "layer list \<Rightarrow> node option \<Rightarrow> node option list \<Rightarrow> node option list" where
  "add_layers [] lyr children = children"
| "add_layers (l # ls) lyr children =
     (let lyr' = layer_switch l lyr in add_layers ls lyr' (children @ [lyr']))"

definition TiledMap :: "env \<Rightarrow> map_description \<Rightarrow> exn + tiledmap" where
  "TiledMap e m =
     (let props = (case parseTiledProperties e (d_properties m) of None \<Rightarrow> [] | Some p \<Rightarrow> p);
          scale_x = or_else (map_of props ''scale'') (JNum 1);
          scale_y = or_else (map_of props ''scale'') (JNum 1);
          sts = (js_times (to_double (d_tilewidth m)) (ToNumber e scale_x),
                 js_times (to_double (d_tileheight m)) (ToNumber e scale_y));
          rs = (js_times (to_double (fst (Map_size m))) (fst sts),
                js_times (to_double (snd (Map_size m))) (snd sts))
      in case build_tilesets e (d_tilesets m) [] of
           Inl x \<Rightarrow> Inl x
         | Inr tss \<Rightarrow>
             Inr \<lparr> m_size = Map_size m, m_properties = props, m_scale = (scale_x, scale_y),
                   m_tileSize = (d_tilewidth m, d_tileheight m),
                   m_orientation = d_orientation m, m_version = d_version m,
                   m_backgroundColor = d_backgroundColor m, m_tilesets = tss,
                   m_scaledTileSize = sts, m_realSize = rs,
                   m_children = add_layers (d_layers m) None [],
                   m_showPhysics = False \<rparr>)"

text \<open>\<open>getTileset\<close>: the first tileset that contains the id; none ends without \<open>return\<close>.\<close>

fun scan_tilesets :: "tileset list \<Rightarrow> int option \<Rightarrow> tileset ret" where
  "scan_tilesets [] tileId = Undefined"
| "scan_tilesets (ts # tss) tileId =
     (if contains ts tileId then Val ts else scan_tilesets tss tileId)"

definition getTileset :: "tiledmap \<Rightarrow> int option \<Rightarrow> tileset ret" where
  "getTileset m tileId = scan_tilesets (m_tilesets m) tileId"

section \<open>Notions of the specification, and example inputs\<close>

text \<open>
  The specification's \<open>withFlags\<close>: the 32-bit value made of a raw id and a choice of
  the three flag bits (FlippedX at bit 31, FlippedY at bit 30, RotatedCW at bit 29).
\<close>

definition withFlags :: "int \<Rightarrow> bool \<Rightarrow> bool \<Rightarrow> bool \<Rightarrow> int" where
  "withFlags r fx fy fr =
     r + (if fx then 2 ^ 31 else 0) + (if fy then 2 ^ 30 else 0) + (if fr then 2 ^ 29 else 0)"

text \<open>The specification's grid formula: the floor of the exact quotient.\<close>

definition floor_quotient :: "int \<Rightarrow> int \<Rightarrow> int \<Rightarrow> int \<Rightarrow> int" where
  "floor_quotient extent mrg tile spc =
     \<lfloor>(of_int (extent - mrg) :: rat) / of_int (tile - spc)\<rfloor>"

text \<open>The specification's non-overlapping tilesets: no two gid ranges share an id.\<close>

definition overlap :: "tileset \<Rightarrow> tileset \<Rightarrow> bool" where
  "overlap a b = (max (firstgid a) (firstgid b) \<le> min (lastgid a) (lastgid b))"

fun non_overlapping :: "tileset list \<Rightarrow> bool" where
  "non_overlapping [] = True"
| "non_overlapping (t # ts) = (list_all (\<lambda>u. \<not> overlap t u) ts \<and> non_overlapping ts)"

text \<open>
  The specification's scale: the \<open>scale\<close> custom property, 1 when it is absent or
  not a number; and the real size it states, the product of map size, tile size and
  scale.
\<close>

definition spec_scale :: "jsval option \<Rightarrow> rat" where
  "spec_scale v = (case v of Some (JNum r) \<Rightarrow> r | _ \<Rightarrow> 1)"

definition spec_realSize :: "map_description \<Rightarrow> jsval option \<Rightarrow> number \<times> number" where
  "spec_realSize m v =
     (Fin (d_width m * d_tilewidth m * spec_scale v),
      Fin (d_height m * d_tileheight m * spec_scale v))"

text \<open>The three fields written by lines 192-194 of \<open>getTileProperties\<close>, for a gid.\<close>

definition flag_fields :: "int \<Rightarrow> jsobj" where
  "flag_fields g =
     [(''flippedX'', JNum (of_int (js_and g FlippedX))),
      (''flippedY'', JNum (of_int (js_and g FlippedY))),
      (''rotatedCW'', JNum (of_int (js_and g RotatedCW)))]"

text \<open>Lines 192-194: what the three assignments do to the object \<open>props\<close>.\<close>

definition write_flags :: "int \<Rightarrow> jsobj \<Rightarrow> jsobj" where
  "write_flags g props =
     AList.update ''rotatedCW'' (JNum (of_int (js_and g RotatedCW)))
       (AList.update ''flippedY'' (JNum (of_int (js_and g FlippedY)))
         (AList.update ''flippedX'' (JNum (of_int (js_and g FlippedX))) props))"

text \<open>
  Example inputs. The asset cache holds a 128 x 128 image for tileset A, a 128 x 64
  image for B and a 16 x 16 image for C; the property parser leaves typed objects as
  they are; the only strings multiplied in the examples are not numeric.
\<close>

definition example_env :: env where
  "example_env =
     \<lparr> assetCache =
         [''A_texture'' \<mapsto> \<lparr> source_width = 128, source_height = 128 \<rparr>,
          ''B_texture'' \<mapsto> \<lparr> source_width = 128, source_height = 64 \<rparr>,
          ''C_texture'' \<mapsto> \<lparr> source_width = 16, source_height = 16 \<rparr>],
       parseTiledProperties = (\<lambda>p. p),
       StringToNumber = (\<lambda>s. NaN) \<rparr>"

definition example_settings :: "string \<Rightarrow> int \<Rightarrow> int \<times> int \<Rightarrow> tileset_settings" where
  "example_settings n fg sz =
     \<lparr> s_name = n, s_firstgid = fg, s_tilewidth = 32, s_tileheight = 32,
       s_spacing = None, s_margin = None, s_tileoffset = None,
       s_imagewidth = fst sz, s_imageheight = snd sz,
       s_properties = None, s_tileproperties = None \<rparr>"

definition example_map ::
    "jsobj option \<Rightarrow> tileset_settings list \<Rightarrow> layer list \<Rightarrow> map_description" where
  "example_map props tss ls =
     \<lparr> d_properties = props, d_tilewidth = 32, d_tileheight = 32,
       d_width = 10, d_height = 8, d_orientation = ''orthogonal'', d_version = 1,
       d_backgroundColor = None, d_tilesets = tss, d_layers = ls \<rparr>"

text \<open>
  The double that the literal 0.1 denotes, and the example map with another width in
  tiles, tile width in pixels and \<open>scale\<close> property.
\<close>

definition double_tenth :: rat where
  "double_tenth = 3602879701896397 / 2 ^ 55"

definition sized_map :: "rat \<Rightarrow> rat \<Rightarrow> jsval \<Rightarrow> map_description" where
  "sized_map w tw v = (example_map (Some [(''scale'', v)]) [] [])\<lparr>d_tilewidth := tw, d_width := w\<rparr>"

text \<open>
  The tileset of 32 x 32 tiles over an image of \<open>nx\<close> by \<open>ny\<close> tiles, with first gid
  \<open>fg\<close>, no margin or spacing and no tile properties.
\<close>

definition grid_tileset :: "string \<Rightarrow> int \<Rightarrow> int \<times> int \<Rightarrow> tileset" where
  "grid_tileset n fg nt =
     \<lparr> base = \<lparr> source_width = 32 * fst nt, source_height = 32 * snd nt \<rparr>,
       firstgid = fg, tsname = n, tileSize = (32, 32), spacing = 0, margin = 0,
       tileoffset = (0, 0), numTiles = nt, lastgid = fg + fst nt * snd nt - 1,
       properties = Some [], tileproperties = Map.empty,
       imageSize = (32 * fst nt, 32 * snd nt),
       textures = map (tile_rectangle nt (32, 32) 0 0) [0..fst nt * snd nt - 1] \<rparr>"

definition tileset_A :: tileset where
  "tileset_A = grid_tileset ''A'' 1 (4, 4)"

definition tileset_B :: tileset where
  "tileset_B = grid_tileset ''B'' 17 (4, 2)"

text \<open>
  The specification's two-tileset scenario: tileset A with first gid 1 and 16 tiles,
  tileset B with first gid 17 and 8 tiles, and the map built from the two.
\<close>

definition two_tileset_description :: map_description where
  "two_tileset_description =
     example_map None
       [example_settings ''A'' 1 (128, 128), example_settings ''B'' 17 (128, 64)] []"

definition two_tileset_map :: tiledmap where
  "two_tileset_map =
     \<lparr> m_size = (10, 8), m_properties = [], m_scale = (JNum 1, JNum 1),
       m_tileSize = (32, 32), m_orientation = ''orthogonal'', m_version = 1,
       m_backgroundColor = None, m_tilesets = [tileset_A, tileset_B],
       m_scaledTileSize = (Fin 32, Fin 32), m_realSize = (Fin 320, Fin 256),
       m_children = [], m_showPhysics = False \<rparr>"

section \<open>Facts about the bit operations\<close>

lemma flag_mask_eq: "flag_mask = 536870911"
  by (simp add: flag_mask_def js_not_def js_or_def ToInt32_def FlippedX_def FlippedY_def
      RotatedCW_def)

lemma sint_take_bit_29: "sint (take_bit 29 (word_of_int g :: 32 word)) = take_bit 29 g"
  by (rule bit_eqI) (auto simp add: bit_sint_iff bit_take_bit_iff bit_word_of_int_iff)

lemma unflag_eq: "unflag g = g mod 536870912"
proof -
  have "(word_of_int g :: 32 word) AND 536870911 = take_bit 29 (word_of_int g)"
    by (simp add: take_bit_eq_mask mask_eq_exp_minus_1)
  then have "unflag g = take_bit 29 g"
    by (simp add: unflag_def flag_mask_eq js_and_def ToInt32_def sint_take_bit_29)
  then show ?thesis
    by (simp add: take_bit_eq_mod)
qed

lemma unflag_range: "0 \<le> unflag g \<and> unflag g < 536870912"
  by (simp add: unflag_eq)

lemma sint_and_low:
  "k < 31 \<Longrightarrow> sint ((word_of_int g :: 32 word) AND 2 ^ k) = (if bit g k then 2 ^ k else 0)"
  by (rule bit_eqI)
     (auto simp add: bit_sint_iff bit_and_iff bit_word_of_int_iff bit_exp_iff)

lemma sint_and_top:
  assumes "30 < k" and "k < 32"
  shows "sint ((word_of_int g :: 32 word) AND 2 ^ k) = (if bit g k then - (2 ^ k) else 0)"
proof (rule bit_eqI)
  fix n
  from assms have k: "k = 31" by simp
  have "n < 32 \<and> k \<le> n \<longleftrightarrow> n = k" using k by auto
  moreover have "\<not> n < 32 \<longleftrightarrow> 32 \<le> n" by auto
  moreover have "k \<le> n \<longleftrightarrow> n = k \<or> 32 \<le> n" using k by auto
  ultimately show "bit (sint ((word_of_int g :: 32 word) AND 2 ^ k)) n
      \<longleftrightarrow> bit (if bit g k then - (2 ^ k) else (0::int)) n"
    using assms
    apply (auto simp add: bit_sint_iff bit_and_iff bit_word_of_int_iff bit_exp_iff
        bit_minus_exp_iff)
    using k apply simp_all
    done
qed

lemma js_and_FlippedX: "js_and g FlippedX = (if bit g 31 then - 2147483648 else 0)"
  using sint_and_top [of 31 g] by (simp add: js_and_def ToInt32_def FlippedX_def)

lemma js_and_FlippedY: "js_and g FlippedY = (if bit g 30 then 1073741824 else 0)"
  using sint_and_low [of 30 g] by (simp add: js_and_def ToInt32_def FlippedY_def)

lemma js_and_RotatedCW: "js_and g RotatedCW = (if bit g 29 then 536870912 else 0)"
  using sint_and_low [of 29 g] by (simp add: js_and_def ToInt32_def RotatedCW_def)

lemma flag_set_iff:
  "js_and g FlippedX \<noteq> 0 \<longleftrightarrow> bit g 31"
  "js_and g FlippedY \<noteq> 0 \<longleftrightarrow> bit g 30"
  "js_and g RotatedCW \<noteq> 0 \<longleftrightarrow> bit g 29"
  by (simp_all add: js_and_FlippedX js_and_FlippedY js_and_RotatedCW)

lemma withFlags_split:
  "withFlags r fx fy fr = r + 2 ^ 29 * (of_bool fr + 2 * of_bool fy + 4 * of_bool fx)"
  by (simp add: withFlags_def)

lemma shifted_mod:
  fixes r m k :: int
  assumes "0 \<le> r" and "r < m"
  shows "(r + m * k) mod m = r" and "(r + m * k) div m = k"
  using assms by simp_all

lemma withFlags_mod:
  assumes "0 \<le> r" and "r < 536870912"
  shows "withFlags r fx fy fr mod 536870912 = r"
proof -
  from assms have "withFlags r fx fy fr mod 2 ^ 29 = r"
    unfolding withFlags_split by (intro shifted_mod) simp_all
  then show ?thesis by simp
qed

lemma withFlags_div:
  assumes "0 \<le> r" and "r < 536870912"
  shows "withFlags r fx fy fr div 2 ^ 29 = of_bool fr + 2 * of_bool fy + 4 * of_bool fx"
  unfolding withFlags_split using assms by (intro shifted_mod) simp_all

lemma bit_withFlags:
  assumes "0 \<le> r" and "r < 536870912"
  shows "bit (withFlags r fx fy fr) (29 + i) \<longleftrightarrow>
           bit (of_bool fr + 2 * of_bool fy + 4 * of_bool fx :: int) i"
proof -
  have "bit (withFlags r fx fy fr) (29 + i) \<longleftrightarrow> bit (drop_bit 29 (withFlags r fx fy fr)) i"
    by (simp add: bit_drop_bit_eq add.commute)
  then show ?thesis
    using withFlags_div [OF assms, of fx fy fr] by (simp add: drop_bit_eq_div)
qed

lemma bits_withFlags:
  assumes "0 \<le> r" and "r < 536870912"
  shows "bit (withFlags r fx fy fr) 31 = fx" and "bit (withFlags r fx fy fr) 30 = fy"
    and "bit (withFlags r fx fy fr) 29 = fr"
  using bit_withFlags [OF assms, of fx fy fr 2] bit_withFlags [OF assms, of fx fy fr 1]
    bit_withFlags [OF assms, of fx fy fr 0]
  by (cases fx; cases fy; cases fr; simp add: bit_iff_odd)+

section \<open>Facts about the multiplication of doubles\<close>

lemma bit_length_one: "bit_length 1 = 1"
  by (simp add: bit_length.simps [of 1] bit_length.simps [of 0])

lemma bit_length_step: "0 < n \<Longrightarrow> bit_length n = Suc (bit_length (n div 2))"
  by (simp add: bit_length.simps [of n])

lemma bit_length_pos: "0 < n \<Longrightarrow> 0 < bit_length n"
  by (simp add: bit_length_step)

lemma bit_length_bounds:
  "0 < n \<Longrightarrow> 2 ^ (bit_length n - 1) \<le> n \<and> n < 2 ^ bit_length n"
proof (induction "nat n" arbitrary: n rule: less_induct)
  case less
  show ?case
  proof (cases "n = 1")
    case True
    then show ?thesis by (simp add: bit_length_one)
  next
    case False
    with less.prems have pos: "0 < n div 2" by simp
    from less.prems have "nat (n div 2) < nat n" by simp
    from less.hyps [OF this pos]
    have ih: "2 ^ (bit_length (n div 2) - 1) \<le> n div 2" "n div 2 < 2 ^ bit_length (n div 2)"
      by blast+
    from bit_length_pos [OF pos] obtain l where l: "bit_length (n div 2) = Suc l"
      by (cases "bit_length (n div 2)") simp_all
    from less.prems have bl: "bit_length n = Suc (Suc l)"
      by (simp add: bit_length_step l)
    from ih have "2 ^ l \<le> n div 2" and "n div 2 < 2 * 2 ^ l"
      unfolding l by simp_all
    then have "2 * 2 ^ l \<le> n" and "n < 2 * (2 * 2 ^ l)"
      by linarith+
    then show ?thesis unfolding bl by simp
  qed
qed

lemma bit_length_rat_bounds:
  assumes "0 < n"
  obtains j where "bit_length n = Suc j" and "(2::rat) ^ j \<le> of_int n"
    and "of_int n + 1 \<le> (2::rat) ^ Suc j"
proof -
  from bit_length_pos [OF assms] obtain j where j: "bit_length n = Suc j"
    by (cases "bit_length n") simp_all
  from bit_length_bounds [OF assms] have "2 ^ j \<le> n" and "n + 1 \<le> 2 ^ Suc j"
    unfolding j by simp_all
  then have "(of_int (2 ^ j) :: rat) \<le> of_int n" and "(of_int (n + 1) :: rat) \<le> of_int (2 ^ Suc j)"
    by (simp_all only: of_int_le_iff)
  then have "(2::rat) ^ j \<le> of_int n" and "of_int n + 1 \<le> (2::rat) ^ Suc j"
    by simp_all
  with j show thesis by (rule that)
qed

lemma ilog2_bounds:
  assumes "0 < x"
  shows "2 powi ilog2 x \<le> x" and "x < 2 powi (ilog2 x + 1)"
proof -
  have "2 powi ilog2 x \<le> x \<and> x < 2 powi (ilog2 x + 1)"
  proof (cases "1 \<le> x")
    case True
    then have n: "0 < \<lfloor>x\<rfloor>" by simp
    from bit_length_rat_bounds [OF n] obtain j where j: "bit_length \<lfloor>x\<rfloor> = Suc j"
      and b: "(2::rat) ^ j \<le> of_int \<lfloor>x\<rfloor>" "of_int \<lfloor>x\<rfloor> + 1 \<le> (2::rat) ^ Suc j"
      by blast
    have "of_int \<lfloor>x\<rfloor> \<le> x" and "x < of_int \<lfloor>x\<rfloor> + 1"
      by linarith+
    with b have xb: "(2::rat) ^ j \<le> x" "x < 2 ^ Suc j"
      by linarith+
    from True j have il: "ilog2 x = int j"
      by (simp add: ilog2_def)
    have "(2::rat) powi (int j + 1) = 2 ^ Suc j"
      by (simp add: power_int_add)
    with xb il show ?thesis
      by (simp only: power_int_of_nat)
  next
    case False
    define y where "y = 1 / x"
    from False assms have y: "1 < y" by (simp add: y_def)
    then have "1 < \<lceil>y\<rceil>" by (simp add: less_ceiling_iff)
    then have n: "0 < \<lceil>y\<rceil> - 1" by simp
    from bit_length_rat_bounds [OF n] obtain j where j: "bit_length (\<lceil>y\<rceil> - 1) = Suc j"
      and b: "(2::rat) ^ j \<le> of_int (\<lceil>y\<rceil> - 1)" "of_int (\<lceil>y\<rceil> - 1) + 1 \<le> (2::rat) ^ Suc j"
      by blast
    have "of_int (\<lceil>y\<rceil> - 1) < y" and "y \<le> of_int (\<lceil>y\<rceil> - 1) + 1"
      by linarith+
    with b have yb: "(2::rat) ^ j < y" "y \<le> 2 ^ Suc j"
      by linarith+
    from yb(2) assms have lo: "1 / 2 ^ Suc j \<le> x"
      unfolding y_def by (simp add: field_simps)
    from yb(1) assms have hi: "x < 1 / 2 ^ j"
      unfolding y_def by (simp add: field_simps)
    from False j have il: "ilog2 x = - int (Suc j)"
      by (simp add: ilog2_def y_def)
    have "(2::rat) powi (- int (Suc j)) = 1 / 2 ^ Suc j"
      by (simp only: power_int_minus_divide power_int_of_nat)
    moreover have "(2::rat) powi (- int (Suc j) + 1) = 1 / 2 ^ j"
    proof -
      have "- int (Suc j) + 1 = - int j" by simp
      then show ?thesis
        by (simp only: power_int_minus_divide power_int_of_nat)
    qed
    ultimately show ?thesis
      using lo hi unfolding il by (simp only:)
  qed
  then show "2 powi ilog2 x \<le> x" and "x < 2 powi (ilog2 x + 1)" by simp_all
qed

lemma ilog2_unique:
  assumes "2 powi k \<le> x" and "x < 2 powi (k + 1)"
  shows "ilog2 x = k"
proof -
  have "(0::rat) < 2 powi k" by simp
  with assms have pos: "0 < x" by linarith
  note b = ilog2_bounds [OF pos]
  have "\<not> k + 1 \<le> ilog2 x"
  proof
    assume "k + 1 \<le> ilog2 x"
    then have "(2::rat) powi (k + 1) \<le> 2 powi ilog2 x"
      by (intro power_int_increasing) simp_all
    with b(1) assms(2) show False by linarith
  qed
  moreover have "\<not> ilog2 x + 1 \<le> k"
  proof
    assume "ilog2 x + 1 \<le> k"
    then have "(2::rat) powi (ilog2 x + 1) \<le> 2 powi k"
      by (intro power_int_increasing) simp_all
    with b(2) assms(1) show False by linarith
  qed
  ultimately show ?thesis by linarith
qed

lemma round_half_even_of_int: "round_half_even (of_int n) = n"
  by (simp add: round_half_even_def)


lemma of_int_abs_less:
  assumes "\<bar>m\<bar> < 2 ^ 53"
  shows "(of_int \<bar>m :: int\<bar> :: rat) < 2 ^ 53" and "(of_int \<bar>m\<bar> :: rat) \<le> 2 ^ 53 - 1"
proof -
  from assms have "(of_int \<bar>m\<bar> :: rat) < of_int (2 ^ 53)"
    by (simp only: of_int_less_iff)
  then show "(of_int \<bar>m\<bar> :: rat) < 2 ^ 53" by simp
  from assms have "\<bar>m\<bar> \<le> 2 ^ 53 - 1" by simp
  then have "(of_int \<bar>m\<bar> :: rat) \<le> of_int (2 ^ 53 - 1)"
    by (simp only: of_int_le_iff)
  then show "(of_int \<bar>m\<bar> :: rat) \<le> 2 ^ 53 - 1" by simp
qed

lemma below_overflow: "((2::rat) ^ 53 - 1) * 2 powi 971 < 2 ^ 1024"
proof -
  have "((2::rat) ^ 53 - 1) * 2 ^ 971 < 2 ^ 53 * 2 ^ 971"
    by (intro mult_strict_right_mono) simp_all
  also have "\<dots> = 2 ^ (53 + 971)"
    by (simp only: power_add)
  finally show ?thesis by simp
qed

lemma to_double_rounds:
  assumes "x \<noteq> 0"
    and "E = max (ilog2 \<bar>x\<bar> - 52) (- 1074)"
    and "y = of_int (round_half_even (\<bar>x\<bar> / 2 powi E)) * 2 powi E"
  shows "to_double x = (if 2 ^ 1024 \<le> y then (if 0 < x then PosInf else NegInf)
                        else Fin (sgn x * y))"
  using assms by (simp only: to_double_def Let_def if_False)

lemma to_double_exact:
  assumes x: "x = of_int m * 2 powi e"
    and m: "\<bar>m\<bar> < 2 ^ 53" and lo: "- 1074 \<le> e" and hi: "e \<le> 971"
  shows "to_double x = Fin x"
proof (cases "x = 0")
  case True
  then show ?thesis by (simp add: to_double_def)
next
  case False
  define E where "E = max (ilog2 \<bar>x\<bar> - 52) (- 1074)"
  from False have pos: "0 < \<bar>x\<bar>" by simp
  have p2: "(0::rat) < 2 powi e" by simp
  have ax: "\<bar>x\<bar> = of_int \<bar>m\<bar> * 2 powi e"
    unfolding x abs_mult using p2 by simp
  have "\<bar>x\<bar> < 2 ^ 53 * 2 powi e"
    unfolding ax using of_int_abs_less(1) [OF m] p2 by (rule mult_strict_right_mono)
  also have "\<dots> = 2 powi (53 + e)"
    by (simp add: power_int_add)
  finally have "2 powi ilog2 \<bar>x\<bar> < (2::rat) powi (53 + e)"
    using ilog2_bounds(1) [OF pos] by linarith
  moreover have "(2::rat) powi (53 + e) \<le> 2 powi ilog2 \<bar>x\<bar>" if "53 + e \<le> ilog2 \<bar>x\<bar>"
    using that by (intro power_int_increasing) simp_all
  ultimately have "ilog2 \<bar>x\<bar> < 53 + e"
    by (meson not_le)
  with lo have Ee: "E \<le> e"
    unfolding E_def by linarith
  define d where "d = nat (e - E)"
  from Ee have e: "e = E + int d" unfolding d_def by simp
  have pw: "(2::rat) powi e = 2 ^ d * 2 powi E"
    unfolding e by (simp add: power_int_add)
  have q: "\<bar>x\<bar> / 2 powi E = of_int (\<bar>m\<bar> * 2 ^ d)"
    unfolding ax pw by simp
  have y: "of_int (round_half_even (\<bar>x\<bar> / 2 powi E)) * 2 powi E = \<bar>x\<bar>"
    unfolding q round_half_even_of_int unfolding ax pw by simp
  have "(2::rat) powi e \<le> 2 powi 971"
    using hi by (intro power_int_increasing) simp_all
  with of_int_abs_less(2) [OF m] have "\<bar>x\<bar> \<le> (2 ^ 53 - 1) * 2 powi 971"
    unfolding ax by (intro mult_mono) simp_all
  with below_overflow have small: "\<not> 2 ^ 1024 \<le> \<bar>x\<bar>" by linarith
  have sg: "sgn x * \<bar>x\<bar> = x"
    by (simp add: sgn_mult_abs)
  from to_double_rounds [OF False E_def y [symmetric]] small sg show ?thesis
    by (simp only: if_False)
qed

lemma to_double_of_int:
  assumes "\<bar>m\<bar> < 2 ^ 53"
  shows "to_double (of_int m) = Fin (of_int m)"
  using to_double_exact [of "of_int m" m 0] assms by simp

lemma to_double_examples:
  "to_double 1 = Fin 1" "to_double 8 = Fin 8" "to_double 10 = Fin 10"
  "to_double 32 = Fin 32" "to_double 320 = Fin 320" "to_double 256 = Fin 256"
  using to_double_of_int [of 1] to_double_of_int [of 8] to_double_of_int [of 10]
    to_double_of_int [of 32] to_double_of_int [of 320] to_double_of_int [of 256]
  by simp_all

lemma to_double_at:
  assumes "2 powi k \<le> \<bar>x\<bar>" and "\<bar>x\<bar> < 2 powi (k + 1)"
    and "E = max (k - 52) (- 1074)"
    and "y = of_int (round_half_even (\<bar>x\<bar> / 2 powi E)) * 2 powi E"
  shows "to_double x = (if 2 ^ 1024 \<le> y then (if 0 < x then PosInf else NegInf)
                        else Fin (sgn x * y))"
proof -
  have "(0::rat) < 2 powi k" by simp
  with assms(1) have "0 < \<bar>x\<bar>" by linarith
  then have "x \<noteq> 0" by simp
  moreover from assms(1,2) have "ilog2 \<bar>x\<bar> = k" by (rule ilog2_unique)
  ultimately show ?thesis
    using assms(3,4) by (intro to_double_rounds) simp_all
qed

lemma floor_numeral_quotient:
  "\<lfloor>(numeral a :: rat) / numeral b\<rfloor> = numeral a div numeral b"
  using floor_divide_of_int_eq [of "numeral a" "numeral b", where ?'a = rat] by simp

lemma tenth_is_double: "to_double (1 / 10) = Fin double_tenth"
  by (rule trans [OF to_double_at [of "- 4" "1 / 10" "- 56" "7205759403792794 / 2 ^ 56"]])
     (simp_all add: round_half_even_def Let_def double_tenth_def floor_numeral_quotient)

lemma tenth_times_24: "to_double (24 * double_tenth) = Fin (5404319552844596 / 2 ^ 51)"
  by (rule trans [OF to_double_at [of 1 "24 * double_tenth" "- 51" "5404319552844596 / 2 ^ 51"]])
     (simp_all add: round_half_even_def Let_def double_tenth_def floor_numeral_quotient)

lemma tenth_times_72: "to_double (72 * double_tenth) = Fin (8106479329266893 / 2 ^ 50)"
  by (rule trans [OF to_double_at [of 2 "72 * double_tenth" "- 50" "8106479329266893 / 2 ^ 50"]])
     (simp_all add: round_half_even_def Let_def double_tenth_def floor_numeral_quotient)

lemma three_times: "to_double (3 * (5404319552844596 / 2 ^ 51)) = Fin (8106479329266894 / 2 ^ 50)"
  using to_double_exact [of "3 * (5404319552844596 / 2 ^ 51)" 8106479329266894 "- 50"]
  by simp

section \<open>The example tilesets are what the constructor builds\<close>

lemma A_built: "TiledTileset example_env (example_settings ''A'' 1 (128, 128)) = Inr tileset_A"
  by (simp add: TiledTileset_def example_env_def example_settings_def tileset_A_def grid_tileset_def
      or_zero_def numTiles_of_def tilde_tilde_div_def trunc_quot_def ToInt32_def lastgid_of_def Let_def)

lemma B_built: "TiledTileset example_env (example_settings ''B'' 17 (128, 64)) = Inr tileset_B"
  by (simp add: TiledTileset_def example_env_def example_settings_def tileset_B_def grid_tileset_def
      or_zero_def numTiles_of_def tilde_tilde_div_def trunc_quot_def ToInt32_def lastgid_of_def Let_def)

section \<open>Gid flags\<close>

text \<open>
  C4. Decoding a gid is the code of lines 169-175: the three flag values are
  \<open>tileId & FlippedX\<close>, \<open>tileId & FlippedY\<close> and \<open>tileId & RotatedCW\<close> (a flag is set
  when the value is not 0), and the raw id is \<open>unflag\<close>. For every raw id \<open>r\<close> of 29
  bits and every choice of the three flags, decoding \<open>withFlags r fx fy fr\<close> gives back
  \<open>r\<close> and exactly the chosen flags. Decoding is defined on every gid, its raw id
  always has 29 bits, and every unsigned 32-bit gid is the \<open>withFlags\<close> of what it
  decodes to.
\<close>

theorem gid_flag_roundtrip:
  "(0 \<le> r \<and> r < 2 ^ 29 \<longrightarrow>
      unflag (withFlags r fx fy fr) = r
      \<and> (js_and (withFlags r fx fy fr) FlippedX \<noteq> 0) = fx
      \<and> (js_and (withFlags r fx fy fr) FlippedY \<noteq> 0) = fy
      \<and> (js_and (withFlags r fx fy fr) RotatedCW \<noteq> 0) = fr)
   \<and> 0 \<le> unflag g \<and> unflag g < 2 ^ 29
   \<and> (0 \<le> g \<and> g < 2 ^ 32 \<longrightarrow>
        withFlags (unflag g) (js_and g FlippedX \<noteq> 0) (js_and g FlippedY \<noteq> 0)
          (js_and g RotatedCW \<noteq> 0) = g)"
proof -
  have enc: "unflag (withFlags r fx fy fr) = r
      \<and> (js_and (withFlags r fx fy fr) FlippedX \<noteq> 0) = fx
      \<and> (js_and (withFlags r fx fy fr) FlippedY \<noteq> 0) = fy
      \<and> (js_and (withFlags r fx fy fr) RotatedCW \<noteq> 0) = fr"
    if "0 \<le> r" and "r < 2 ^ 29"
    using that
    by (simp add: unflag_eq withFlags_mod flag_set_iff bits_withFlags)
  have dec: "withFlags (unflag g) (js_and g FlippedX \<noteq> 0) (js_and g FlippedY \<noteq> 0)
          (js_and g RotatedCW \<noteq> 0) = g" if "0 \<le> g" and "g < 2 ^ 32"
  proof -
    define k where "k = g div 2 ^ 29"
    have g: "g = g mod 2 ^ 29 + 2 ^ 29 * k"
      by (simp add: k_def)
    have k: "0 \<le> k" "k < 8"
      using that unfolding k_def by simp_all
    have b: "bit g (29 + i) \<longleftrightarrow> bit k i" for i
    proof -
      have "bit (drop_bit 29 g) i \<longleftrightarrow> bit g (29 + i)"
        by (simp add: bit_drop_bit_eq add.commute)
      then show ?thesis
        by (simp add: k_def drop_bit_eq_div)
    qed
    have "k = of_bool (bit k 0) + 2 * of_bool (bit k 1) + 4 * of_bool (bit k 2)"
    proof -
      from k have "k \<in> {0, 1, 2, 3, 4, 5, 6, 7}" by auto
      then show ?thesis by (auto simp add: bit_iff_odd)
    qed
    then have "k = of_bool (bit g 29) + 2 * of_bool (bit g 30) + 4 * of_bool (bit g 31)"
      using b [of 0] b [of 1] b [of 2] by simp
    then have "withFlags (g mod 2 ^ 29) (bit g 31) (bit g 30) (bit g 29) = g mod 2 ^ 29 + 2 ^ 29 * k"
      unfolding withFlags_split by simp
    with g have "withFlags (g mod 2 ^ 29) (bit g 31) (bit g 30) (bit g 29) = g"
      by simp
    then show ?thesis
      by (simp add: unflag_eq flag_set_iff)
  qed
  from enc dec unflag_range [of g] show ?thesis by simp
qed

theorem gid_flag_roundtrip_witness:
  "(0::int) \<le> 5 \<and> (5::int) < 2 ^ 29
   \<and> unflag (withFlags 5 True False True) = 5
   \<and> (js_and (withFlags 5 True False True) FlippedX \<noteq> 0) = True
   \<and> (js_and (withFlags 5 True False True) FlippedY \<noteq> 0) = False
   \<and> (js_and (withFlags 5 True False True) RotatedCW \<noteq> 0) = True
   \<and> (0::int) \<le> 2684354565 \<and> (2684354565::int) < 2 ^ 32
   \<and> withFlags (unflag 2684354565) (js_and 2684354565 FlippedX \<noteq> 0)
         (js_and 2684354565 FlippedY \<noteq> 0) (js_and 2684354565 RotatedCW \<noteq> 0) = 2684354565"
  using gid_flag_roundtrip [of 5 True False True 2684354565] by simp

section \<open>The tileset constructor\<close>

lemma sint_ToInt32_small:
  assumes "- 2147483648 \<le> x" and "x < 2147483648"
  shows "sint (ToInt32 x) = x"
proof -
  from assms have "signed_take_bit 31 x = x"
    by (intro signed_take_bit_int_eq_self) simp_all
  then show ?thesis
    by (simp add: ToInt32_def sint_sbintrunc')
qed

lemma tilde_tilde_div_nonneg:
  assumes "0 \<le> a" and "0 < b" and "a div b < 2147483648"
  shows "tilde_tilde_div a b = a div b"
proof -
  from assms have q: "trunc_quot a b = a div b"
    by (cases "a = 0") (simp_all add: trunc_quot_def)
  from assms have "0 \<le> a div b"
    by (simp add: pos_imp_zdiv_nonneg_iff)
  with assms q show ?thesis
    by (simp add: tilde_tilde_div_def sint_ToInt32_small)
qed

lemma floor_quotient_eq_div: "floor_quotient w m t sp = (w - m) div (t - sp)"
  by (simp only: floor_quotient_def floor_divide_of_int_eq)

lemma TiledTileset_fields:
  assumes "TiledTileset e s = Inr ts"
  shows "firstgid ts = s_firstgid s"
    and "numTiles ts =
      (numTiles_of (source_width (base ts)) (margin ts) (fst (tileSize ts)) (spacing ts),
       numTiles_of (source_height (base ts)) (margin ts) (snd (tileSize ts)) (spacing ts))"
    and "lastgid ts = lastgid_of (firstgid ts) (numTiles ts)"
    and "textures ts =
      map (tile_rectangle (numTiles ts) (tileSize ts) (spacing ts) (margin ts))
        [0..lastgid ts - firstgid ts]"
    and "assetCache e (s_name s @ ''_texture'') = Some (base ts)"
  using assms
  by (auto simp add: TiledTileset_def Let_def split: option.splits)

text \<open>
  C9, as the code has it. \<open>numTiles.x\<close> is \<open>~~((atlasWidth - margin) / (tileWidth - spacing))\<close>
  and \<open>numTiles.y\<close> the same from the heights: the quotient truncated towards zero as
  a signed 32-bit integer, and 0 when the tile size equals the spacing. It is the
  floor of the quotient whenever \<open>atlasWidth - margin\<close> is not negative,
  \<open>tileWidth - spacing\<close> is positive and the floor is below \<open>2 ^ 31\<close>. Atlas width 256
  with tile width 32, margin 0 and spacing 0 gives 8, and atlas width 258 with margin
  2, spacing 2 and tile width 32 gives 8.
\<close>

theorem numTiles_truncated_quotient:
  assumes "TiledTileset e s = Inr ts"
  shows "numTiles ts =
      (tilde_tilde_div (source_width (base ts) - margin ts) (fst (tileSize ts) - spacing ts),
       tilde_tilde_div (source_height (base ts) - margin ts) (snd (tileSize ts) - spacing ts))
    \<and> (0 \<le> source_width (base ts) - margin ts \<and> 0 < fst (tileSize ts) - spacing ts
        \<and> floor_quotient (source_width (base ts)) (margin ts) (fst (tileSize ts)) (spacing ts)
            < 2 ^ 31
       \<longrightarrow> fst (numTiles ts) =
            floor_quotient (source_width (base ts)) (margin ts) (fst (tileSize ts)) (spacing ts))
    \<and> (0 \<le> source_height (base ts) - margin ts \<and> 0 < snd (tileSize ts) - spacing ts
        \<and> floor_quotient (source_height (base ts)) (margin ts) (snd (tileSize ts)) (spacing ts)
            < 2 ^ 31
       \<longrightarrow> snd (numTiles ts) =
            floor_quotient (source_height (base ts)) (margin ts) (snd (tileSize ts)) (spacing ts))
    \<and> tilde_tilde_div (256 - 0) (32 - 0) = 8
    \<and> tilde_tilde_div (258 - 2) (32 - 2) = 8"
proof -
  have ex: "tilde_tilde_div (256 - 0) (32 - 0) = 8 \<and> tilde_tilde_div (258 - 2) (32 - 2) = 8"
    by (simp add: tilde_tilde_div_def trunc_quot_def ToInt32_def)
  show ?thesis
    using TiledTileset_fields(2) [OF assms] ex
    by (simp add: numTiles_of_def floor_quotient_eq_div tilde_tilde_div_nonneg)
qed

theorem numTiles_truncated_quotient_witness:
  "TiledTileset example_env (example_settings ''A'' 1 (128, 128)) = Inr tileset_A
   \<and> numTiles tileset_A = (4, 4)
   \<and> fst (numTiles tileset_A) = floor_quotient 128 0 32 0"
  using numTiles_truncated_quotient [OF A_built] A_built
  by (simp add: tileset_A_def grid_tileset_def floor_quotient_eq_div)

text \<open>
  C9 as stated fails where the quotient is negative: a 16 pixel wide image with margin
  32 and tile width 32 has quotient \<open>- 1 / 2\<close>, whose floor is \<open>- 1\<close>, while the
  constructor computes 0.
\<close>

theorem numTiles_floor_counterexample:
  "\<not> isl (TiledTileset example_env ((example_settings ''C'' 1 (16, 16))\<lparr>s_margin := Some 32\<rparr>))
   \<and> fst (numTiles (projr
         (TiledTileset example_env ((example_settings ''C'' 1 (16, 16))\<lparr>s_margin := Some 32\<rparr>))))
       = 0
   \<and> floor_quotient 16 32 32 0 = - 1"
  by (simp add: TiledTileset_def example_env_def example_settings_def or_zero_def
      numTiles_of_def tilde_tilde_div_def trunc_quot_def ToInt32_def lastgid_of_def Let_def
      floor_quotient_eq_div)

text \<open>
  C2, as the code has it. Every constructed tileset has
  \<open>lastgid = firstgid + numTiles.x * numTiles.y - 1\<close>, whatever the product is, and as
  many textures as the product says (none when it is not positive). So when the
  product is 0, \<open>lastgid = firstgid - 1\<close>, the gid range is empty and so is the
  textures list.
\<close>

theorem lastgid_formula:
  assumes "TiledTileset e s = Inr ts"
  shows "lastgid ts = firstgid ts + fst (numTiles ts) * snd (numTiles ts) - 1
    \<and> length (textures ts) = nat (fst (numTiles ts) * snd (numTiles ts))
    \<and> (fst (numTiles ts) * snd (numTiles ts) = 0
         \<longrightarrow> lastgid ts = firstgid ts - 1 \<and> textures ts = [])"
  using TiledTileset_fields(3,4) [OF assms]
  by (auto simp add: lastgid_of_def)

theorem lastgid_formula_witness:
  "TiledTileset example_env (example_settings ''A'' 1 (128, 128)) = Inr tileset_A
   \<and> lastgid tileset_A = 16 \<and> length (textures tileset_A) = 16
   \<and> fst (numTiles tileset_A) * snd (numTiles tileset_A) = 16
   \<and> numTiles (projr (TiledTileset example_env (example_settings ''C'' 1 (16, 16)))) = (0, 0)
   \<and> lastgid (projr (TiledTileset example_env (example_settings ''C'' 1 (16, 16))))
       = firstgid (projr (TiledTileset example_env (example_settings ''C'' 1 (16, 16)))) - 1
   \<and> textures (projr (TiledTileset example_env (example_settings ''C'' 1 (16, 16)))) = []"
proof -
  have c: "TiledTileset example_env (example_settings ''C'' 1 (16, 16))
             = Inr (projr (TiledTileset example_env (example_settings ''C'' 1 (16, 16))))"
    by (simp add: TiledTileset_def example_env_def example_settings_def Let_def)
  have n: "numTiles (projr (TiledTileset example_env (example_settings ''C'' 1 (16, 16)))) = (0, 0)"
    by (simp add: TiledTileset_def example_env_def example_settings_def or_zero_def
        numTiles_of_def tilde_tilde_div_def trunc_quot_def ToInt32_def Let_def)
  from lastgid_formula [OF A_built] lastgid_formula [OF c] n A_built show ?thesis
    by (simp add: tileset_A_def grid_tileset_def)
qed

text \<open>
  C2 as stated fails for a tileset with no tiles: a 16 x 16 image cut into 32 x 32
  tiles has \<open>numTiles = (0, 0)\<close>, and with \<open>firstgid = 1\<close> its \<open>lastgid\<close> is 0, not 1.
\<close>

theorem lastgid_zero_tiles_counterexample:
  "\<not> isl (TiledTileset example_env (example_settings ''C'' 1 (16, 16)))
   \<and> numTiles (projr (TiledTileset example_env (example_settings ''C'' 1 (16, 16)))) = (0, 0)
   \<and> firstgid (projr (TiledTileset example_env (example_settings ''C'' 1 (16, 16)))) = 1
   \<and> lastgid (projr (TiledTileset example_env (example_settings ''C'' 1 (16, 16)))) = 0
   \<and> textures (projr (TiledTileset example_env (example_settings ''C'' 1 (16, 16)))) = []"
  by (simp add: TiledTileset_def example_env_def example_settings_def or_zero_def
      numTiles_of_def tilde_tilde_div_def trunc_quot_def ToInt32_def lastgid_of_def Let_def)

section \<open>Finding the tileset of a gid\<close>

lemma contains_iff:
  "contains ts (Some g) \<longleftrightarrow> firstgid ts \<le> unflag g \<and> unflag g \<le> lastgid ts"
  by (simp add: contains_def)

lemma overlap_if_both_contain:
  assumes "contains a tid" and "contains b tid"
  shows "overlap a b"
  using assms by (cases tid) (auto simp add: contains_def overlap_def)

lemma scan_tilesets_none:
  assumes "\<forall>ts \<in> set tss. \<not> contains ts tid"
  shows "scan_tilesets tss tid = Undefined"
  using assms by (induction tss) simp_all

lemma scan_tilesets_owner:
  assumes "non_overlapping tss" and "ts \<in> set tss" and "contains ts tid"
  shows "scan_tilesets tss tid = Val ts"
  using assms
proof (induction tss)
  case Nil
  then show ?case by simp
next
  case (Cons t rest)
  show ?case
  proof (cases "contains t tid")
    case True
    have "ts = t"
    proof (rule ccontr)
      assume "ts \<noteq> t"
      with Cons.prems have "ts \<in> set rest" by simp
      with Cons.prems have "\<not> overlap t ts" by (simp add: list_all_iff)
      with True Cons.prems show False by (simp add: overlap_if_both_contain)
    qed
    with True show ?thesis by simp
  next
    case False
    with Cons.prems have "ts \<in> set rest" by auto
    with False Cons show ?thesis by simp
  qed
qed

lemma example_env_sel:
  "parseTiledProperties example_env p = p" "StringToNumber example_env s = NaN"
  by (simp_all add: example_env_def)

lemma two_tileset_map_built:
  "TiledMap example_env two_tileset_description = Inr two_tileset_map"
  by (simp add: TiledMap_def two_tileset_description_def two_tileset_map_def example_map_def
      A_built B_built Let_def or_else_def ToNumber_def Map_size_def example_env_sel
      to_double_examples)

lemma example_ranges:
  "firstgid tileset_A = 1" "lastgid tileset_A = 16"
  "firstgid tileset_B = 17" "lastgid tileset_B = 24"
  by (simp_all add: tileset_A_def tileset_B_def grid_tileset_def)

text \<open>
  C3. The map built from the two-tileset description holds tileset A with gids 1 to
  16 and tileset B with gids 17 to 24. \<open>getTileset\<close> returns A for every gid whose
  unflagged value is in 1..16, B for every gid whose unflagged value is in 17..24, and
  nothing for unflagged value 25. In general, when the tilesets of a map do not
  overlap, \<open>getTileset g\<close> returns the tileset of the map whose range from \<open>firstgid\<close>
  to \<open>lastgid\<close> holds the unflagged \<open>g\<close>, and nothing when no range holds it.
\<close>

theorem getTileset_owner:
  "TiledMap example_env two_tileset_description = Inr two_tileset_map
   \<and> m_tilesets two_tileset_map = [tileset_A, tileset_B]
   \<and> (firstgid tileset_A, lastgid tileset_A, firstgid tileset_B, lastgid tileset_B)
       = (1, 16, 17, 24)
   \<and> (1 \<le> unflag g \<and> unflag g \<le> 16
        \<longrightarrow> getTileset two_tileset_map (Some g) = Val tileset_A)
   \<and> (17 \<le> unflag g \<and> unflag g \<le> 24
        \<longrightarrow> getTileset two_tileset_map (Some g) = Val tileset_B)
   \<and> (unflag g = 25 \<longrightarrow> getTileset two_tileset_map (Some g) = Undefined)
   \<and> (non_overlapping (m_tilesets m) \<and> ts \<in> set (m_tilesets m)
        \<and> firstgid ts \<le> unflag g \<and> unflag g \<le> lastgid ts
        \<longrightarrow> getTileset m (Some g) = Val ts)
   \<and> ((\<forall>u \<in> set (m_tilesets m). \<not> (firstgid u \<le> unflag g \<and> unflag g \<le> lastgid u))
        \<longrightarrow> getTileset m (Some g) = Undefined)"
proof -
  have ts: "m_tilesets two_tileset_map = [tileset_A, tileset_B]"
    by (simp add: two_tileset_map_def)
  have a: "getTileset two_tileset_map (Some g) = Val tileset_A"
    if "1 \<le> unflag g" and "unflag g \<le> 16"
    using that by (simp add: getTileset_def ts contains_iff example_ranges)
  have b: "getTileset two_tileset_map (Some g) = Val tileset_B"
    if "17 \<le> unflag g" and "unflag g \<le> 24"
    using that by (simp add: getTileset_def ts contains_iff example_ranges)
  have c: "getTileset two_tileset_map (Some g) = Undefined" if "unflag g = 25"
    using that by (simp add: getTileset_def ts contains_iff example_ranges)
  have d: "getTileset m (Some g) = Val ts"
    if "non_overlapping (m_tilesets m)" and "ts \<in> set (m_tilesets m)"
      and "firstgid ts \<le> unflag g" and "unflag g \<le> lastgid ts"
    unfolding getTileset_def using that
    by (intro scan_tilesets_owner) (simp_all add: contains_iff)
  have e: "getTileset m (Some g) = Undefined"
    if "\<forall>u \<in> set (m_tilesets m). \<not> (firstgid u \<le> unflag g \<and> unflag g \<le> lastgid u)"
    unfolding getTileset_def using that
    by (intro scan_tilesets_none) (simp add: contains_iff)
  from two_tileset_map_built ts a b c d e show ?thesis
    by (simp add: example_ranges)
qed

theorem getTileset_owner_witness:
  "getTileset two_tileset_map (Some 1) = Val tileset_A
   \<and> getTileset two_tileset_map (Some 16) = Val tileset_A
   \<and> getTileset two_tileset_map (Some 17) = Val tileset_B
   \<and> getTileset two_tileset_map (Some 24) = Val tileset_B
   \<and> getTileset two_tileset_map (Some 25) = Undefined
   \<and> getTileset two_tileset_map (Some 2147483665) = Val tileset_B
   \<and> non_overlapping (m_tilesets two_tileset_map)
   \<and> tileset_B \<in> set (m_tilesets two_tileset_map)
   \<and> firstgid tileset_B \<le> unflag 2147483665 \<and> unflag 2147483665 \<le> lastgid tileset_B"
  using getTileset_owner [of 1] getTileset_owner [of 16] getTileset_owner [of 17]
    getTileset_owner [of 24] getTileset_owner [of 25 two_tileset_map]
    getTileset_owner [of 2147483665 two_tileset_map tileset_B]
  by (simp add: unflag_eq two_tileset_map_def example_ranges overlap_def)

section \<open>Tile properties and textures\<close>

lemma flag_fields_bits:
  "flag_fields g =
     [(''flippedX'', JNum (if bit g 31 then - 2147483648 else 0)),
      (''flippedY'', JNum (if bit g 30 then 1073741824 else 0)),
      (''rotatedCW'', JNum (if bit g 29 then 536870912 else 0))]"
  by (simp add: flag_fields_def js_and_FlippedX js_and_FlippedY js_and_RotatedCW)

lemma getTileProperties_owned:
  assumes "firstgid ts \<le> unflag g"
  shows "getTileProperties ts (Some g) =
     (Val (write_flags g (case tileproperties ts (unflag g - firstgid ts) of
                            Some p \<Rightarrow> p | None \<Rightarrow> default_properties)),
      ts\<lparr>tileproperties := (tileproperties ts)(unflag g - firstgid ts \<mapsto>
            write_flags g (case tileproperties ts (unflag g - firstgid ts) of
                             Some p \<Rightarrow> p | None \<Rightarrow> default_properties))\<rparr>)"
  using assms by (simp add: getTileProperties_def Let_def write_flags_def)

lemma write_flags_default: "write_flags g default_properties = default_properties @ flag_fields g"
  by (simp add: write_flags_def default_properties_def flag_fields_def)

lemma write_flags_again:
  "write_flags g' (default_properties @ flag_fields g) = default_properties @ flag_fields g'"
  by (simp add: write_flags_def default_properties_def flag_fields_def)

lemma map_of_write_flags:
  "map_of (write_flags g p) =
     (map_of p)(''flippedX'' \<mapsto> JNum (of_int (js_and g FlippedX)),
                ''flippedY'' \<mapsto> JNum (of_int (js_and g FlippedY)),
                ''rotatedCW'' \<mapsto> JNum (of_int (js_and g RotatedCW)))"
  by (simp add: write_flags_def update_conv')

text \<open>
  C5. For every tileset and every gid whose unflagged value is at least \<open>firstgid\<close>
  and whose local index has no tile properties stored, \<open>getTileProperties\<close> returns the
  default record (collidable false, breakable false, type NONE) followed by
  \<open>flippedX\<close>, \<open>flippedY\<close> and \<open>rotatedCW\<close> holding the flag bits of the queried gid (the
  masked bit, so 0 when the flag is clear). A second call with a gid of the same raw
  id returns the same collidable, breakable and type values with the flags of the
  second gid.
\<close>

theorem default_tile_properties:
  assumes "firstgid ts \<le> unflag g"
    and "tileproperties ts (unflag g - firstgid ts) = None"
    and "unflag g' = unflag g"
  shows "fst (getTileProperties ts (Some g)) = Val (default_properties @ flag_fields g)
    \<and> fst (getTileProperties (snd (getTileProperties ts (Some g))) (Some g'))
        = Val (default_properties @ flag_fields g')
    \<and> default_properties =
        [(''collidable'', JBool False), (''breakable'', JBool False), (''type'', Tile_TYPE_NONE)]
    \<and> flag_fields g' =
        [(''flippedX'', JNum (if bit g' 31 then - 2147483648 else 0)),
         (''flippedY'', JNum (if bit g' 30 then 1073741824 else 0)),
         (''rotatedCW'', JNum (if bit g' 29 then 536870912 else 0))]"
proof -
  let ?ts1 = "snd (getTileProperties ts (Some g))"
  from assms have first: "getTileProperties ts (Some g) =
      (Val (default_properties @ flag_fields g),
       ts\<lparr>tileproperties := (tileproperties ts)(unflag g - firstgid ts \<mapsto>
             default_properties @ flag_fields g)\<rparr>)"
    by (simp add: getTileProperties_owned write_flags_default)
  then have "firstgid ?ts1 \<le> unflag g'"
    and "tileproperties ?ts1 (unflag g' - firstgid ?ts1) = Some (default_properties @ flag_fields g)"
    using assms by simp_all
  then have "fst (getTileProperties ?ts1 (Some g')) = Val (default_properties @ flag_fields g')"
    by (simp add: getTileProperties_owned write_flags_again)
  with first show ?thesis
    by (simp add: flag_fields_bits default_properties_def)
qed

theorem default_tile_properties_witness:
  "firstgid tileset_A \<le> unflag 2147483651
   \<and> tileproperties tileset_A (unflag 2147483651 - firstgid tileset_A) = None
   \<and> unflag 1073741827 = unflag 2147483651
   \<and> fst (getTileProperties tileset_A (Some 2147483651))
       = Val [(''collidable'', JBool False), (''breakable'', JBool False),
              (''type'', Tile_TYPE_NONE), (''flippedX'', JNum (- 2147483648)),
              (''flippedY'', JNum 0), (''rotatedCW'', JNum 0)]
   \<and> fst (getTileProperties (snd (getTileProperties tileset_A (Some 2147483651)))
             (Some 1073741827))
       = Val [(''collidable'', JBool False), (''breakable'', JBool False),
              (''type'', Tile_TYPE_NONE), (''flippedX'', JNum 0),
              (''flippedY'', JNum 1073741824), (''rotatedCW'', JNum 0)]"
  using default_tile_properties [of tileset_A 2147483651 1073741827]
  by (simp add: unflag_eq example_ranges flag_fields_bits default_properties_def bit_iff_odd)
    (simp add: tileset_A_def grid_tileset_def)

text \<open>
  C7, as the code has it. The record that \<open>getTileProperties\<close> returns is the cache entry
  of the queried local index: after a call with an owned gid the entry holds
  \<open>flippedX\<close>, \<open>flippedY\<close> and \<open>rotatedCW\<close> with the flag bits of that call, and every
  other property (collidable, breakable, type and whatever else was authored) as it
  was before the call, or as the default record has it when nothing was stored.
\<close>

theorem flags_written_to_cache_entry:
  assumes "firstgid ts \<le> unflag g"
  shows "\<exists>p. getTileProperties ts (Some g)
          = (Val p, ts\<lparr>tileproperties := (tileproperties ts)(unflag g - firstgid ts \<mapsto> p)\<rparr>)
      \<and> map_of p ''flippedX'' = Some (JNum (of_int (js_and g FlippedX)))
      \<and> map_of p ''flippedY'' = Some (JNum (of_int (js_and g FlippedY)))
      \<and> map_of p ''rotatedCW'' = Some (JNum (of_int (js_and g RotatedCW)))
      \<and> (\<forall>k. k \<notin> {''flippedX'', ''flippedY'', ''rotatedCW''} \<longrightarrow>
            map_of p k =
            map_of (case tileproperties ts (unflag g - firstgid ts) of
                      Some q \<Rightarrow> q | None \<Rightarrow> default_properties) k)"
  using getTileProperties_owned [OF assms]
  by (simp add: map_of_write_flags)

theorem flags_written_to_cache_entry_witness:
  "firstgid tileset_A \<le> unflag 2147483649
   \<and> tileproperties (snd (getTileProperties tileset_A (Some 2147483649))) 0
       = Some (default_properties @ flag_fields 2147483649)
   \<and> fst (getTileProperties tileset_A (Some 2147483649))
       = Val (default_properties @ flag_fields 2147483649)
   \<and> map_of (default_properties @ flag_fields 2147483649) ''flippedX''
       = Some (JNum (- 2147483648))
   \<and> map_of (default_properties @ flag_fields 2147483649) ''collidable''
       = Some (JBool False)"
proof -
  have h: "firstgid tileset_A \<le> unflag 2147483649"
    by (simp add: unflag_eq example_ranges)
  have none: "tileproperties tileset_A (unflag 2147483649 - firstgid tileset_A) = None"
    by (simp add: tileset_A_def grid_tileset_def)
  from flags_written_to_cache_entry [OF h]
  obtain p where p: "getTileProperties tileset_A (Some 2147483649)
          = (Val p, tileset_A\<lparr>tileproperties :=
               (tileproperties tileset_A)(unflag 2147483649 - firstgid tileset_A \<mapsto> p)\<rparr>)"
    by blast
  from h none have "getTileProperties tileset_A (Some 2147483649)
          = (Val (default_properties @ flag_fields 2147483649),
             tileset_A\<lparr>tileproperties :=
               (tileproperties tileset_A)(unflag 2147483649 - firstgid tileset_A \<mapsto>
                  default_properties @ flag_fields 2147483649)\<rparr>)"
    by (simp add: getTileProperties_owned write_flags_default)
  with p have "p = default_properties @ flag_fields 2147483649"
    by simp
  with p h show ?thesis
    by (simp add: unflag_eq example_ranges flag_fields_bits default_properties_def bit_iff_odd)
qed

text \<open>
  C7 as stated fails: in tileset A, whose cache is empty after construction, the entry
  of local index 0 after a query holds the three flag fields besides collidable,
  breakable and type, and their values depend on the flag bits of the query.
\<close>

theorem cache_entry_counterexample:
  "TiledTileset example_env (example_settings ''A'' 1 (128, 128)) = Inr tileset_A
   \<and> tileproperties tileset_A 0 = None
   \<and> tileproperties (snd (getTileProperties tileset_A (Some 2147483649))) 0
       = Some [(''collidable'', JBool False), (''breakable'', JBool False),
               (''type'', Tile_TYPE_NONE), (''flippedX'', JNum (- 2147483648)),
               (''flippedY'', JNum 0), (''rotatedCW'', JNum 0)]
   \<and> tileproperties (snd (getTileProperties tileset_A (Some 1))) 0
       = Some [(''collidable'', JBool False), (''breakable'', JBool False),
               (''type'', Tile_TYPE_NONE), (''flippedX'', JNum 0),
               (''flippedY'', JNum 0), (''rotatedCW'', JNum 0)]"
proof -
  have none: "tileproperties tileset_A 0 = None"
    by (simp add: tileset_A_def grid_tileset_def)
  have "tileproperties (snd (getTileProperties tileset_A (Some g))) 0
          = Some (default_properties @ flag_fields g)" if "unflag g = 1" for g
    using that none by (simp add: getTileProperties_owned example_ranges write_flags_default)
  from this [of 2147483649] this [of 1] none A_built show ?thesis
    by (simp add: unflag_eq flag_fields_bits default_properties_def bit_iff_odd)
qed

lemma getTileProperties_Null_iff:
  "fst (getTileProperties ts tid) = Null
     \<longleftrightarrow> (case tid of None \<Rightarrow> True | Some v \<Rightarrow> unflag v < firstgid ts)"
  by (cases tid) (auto simp add: getTileProperties_def Let_def)

lemma getTileProperties_isNone_iff:
  "isNone (fst (getTileProperties ts tid))
     \<longleftrightarrow> (case tid of None \<Rightarrow> True | Some v \<Rightarrow> unflag v < firstgid ts)"
  by (cases tid) (auto simp add: getTileProperties_def Let_def)

lemma getTileTexture_Null_iff:
  "getTileTexture ts tid = Null
     \<longleftrightarrow> (case tid of None \<Rightarrow> True | Some v \<Rightarrow> unflag v < firstgid ts)"
  by (cases tid) (auto simp add: getTileTexture_def Let_def)

lemma getTileTexture_Undefined_iff:
  "getTileTexture ts tid = Undefined
     \<longleftrightarrow> (case tid of None \<Rightarrow> False
          | Some v \<Rightarrow> firstgid ts \<le> unflag v
                      \<and> int (length (textures ts)) \<le> unflag v - firstgid ts)"
  by (cases tid) (auto simp add: getTileTexture_def Let_def)

lemma gid_above_exists:
  "(\<exists>g. lastgid ts < unflag g) \<longleftrightarrow> lastgid ts < 536870911"
proof
  assume "\<exists>g. lastgid ts < unflag g"
  then obtain g where "lastgid ts < unflag g" ..
  with unflag_range [of g] show "lastgid ts < 536870911" by simp
next
  assume "lastgid ts < 536870911"
  then have "lastgid ts < unflag 536870911" by (simp add: unflag_eq)
  then show "\<exists>g. lastgid ts < unflag g" ..
qed

text \<open>
  C6, as the code has it. The ownership check of \<open>getTileProperties\<close> and
  \<open>getTileTexture\<close> is one-sided: each returns \<open>null\<close> exactly when the gid is undefined
  or its unflagged value is below \<open>firstgid\<close>. \<open>getTileProperties\<close> returns a record in
  every other case; \<open>getTileTexture\<close> returns the array read \<open>textures[index]\<close>, which is
  \<open>undefined\<close> when the local index is not below the number of textures. So for a
  tileset whose \<open>lastgid\<close> is at least \<open>firstgid - 1\<close> and a gid \<open>g\<close> with unflagged value
  above \<open>lastgid\<close> and nothing stored at its local index: \<open>contains\<close> rejects \<open>g\<close>, the
  \<open>getTileset\<close> of a map in which no other tileset owns \<open>g\<close> returns nothing, and
  \<open>getTileProperties\<close> returns the default record with the flags of \<open>g\<close> and stores it.
  Such a gid exists exactly when \<open>lastgid\<close> is below \<open>2 ^ 29 - 1\<close>.
\<close>

theorem ownership_check_one_sided:
  assumes "lastgid ts < unflag g"
    and "firstgid ts \<le> lastgid ts + 1"
    and "tileproperties ts (unflag g - firstgid ts) = None"
    and "\<forall>u \<in> set (m_tilesets m). u = ts \<or> \<not> contains u (Some g)"
  shows "(fst (getTileProperties ts tid) = Null
           \<longleftrightarrow> (case tid of None \<Rightarrow> True | Some v \<Rightarrow> unflag v < firstgid ts))
    \<and> (isNone (fst (getTileProperties ts tid))
           \<longleftrightarrow> (case tid of None \<Rightarrow> True | Some v \<Rightarrow> unflag v < firstgid ts))
    \<and> (getTileTexture ts tid = Null
           \<longleftrightarrow> (case tid of None \<Rightarrow> True | Some v \<Rightarrow> unflag v < firstgid ts))
    \<and> (getTileTexture ts tid = Undefined
           \<longleftrightarrow> (case tid of None \<Rightarrow> False
                | Some v \<Rightarrow> firstgid ts \<le> unflag v
                            \<and> int (length (textures ts)) \<le> unflag v - firstgid ts))
    \<and> \<not> contains ts (Some g)
    \<and> getTileset m (Some g) = Undefined
    \<and> getTileProperties ts (Some g)
        = (Val (default_properties @ flag_fields g),
           ts\<lparr>tileproperties := (tileproperties ts)(unflag g - firstgid ts \<mapsto>
                 default_properties @ flag_fields g)\<rparr>)
    \<and> ((\<exists>g'. lastgid ts < unflag g') \<longleftrightarrow> lastgid ts < 2 ^ 29 - 1)"
proof -
  from assms(1) have nc: "\<not> contains ts (Some g)"
    by (simp add: contains_iff)
  with assms(4) have "\<forall>u \<in> set (m_tilesets m). \<not> contains u (Some g)"
    by auto
  then have gt: "getTileset m (Some g) = Undefined"
    unfolding getTileset_def by (rule scan_tilesets_none)
  from assms(1,2) have "firstgid ts \<le> unflag g"
    by simp
  with assms(3) have gp: "getTileProperties ts (Some g)
        = (Val (default_properties @ flag_fields g),
           ts\<lparr>tileproperties := (tileproperties ts)(unflag g - firstgid ts \<mapsto>
                 default_properties @ flag_fields g)\<rparr>)"
    by (simp add: getTileProperties_owned write_flags_default)
  from nc gt gp gid_above_exists [of ts] show ?thesis
    by (simp only: getTileProperties_Null_iff getTileProperties_isNone_iff
        getTileTexture_Null_iff getTileTexture_Undefined_iff) simp
qed

theorem ownership_check_one_sided_witness:
  "lastgid tileset_A < unflag 25
   \<and> firstgid tileset_A \<le> lastgid tileset_A + 1
   \<and> tileproperties tileset_A (unflag 25 - firstgid tileset_A) = None
   \<and> \<not> contains tileset_B (Some 25)
   \<and> \<not> contains tileset_A (Some 25)
   \<and> getTileset two_tileset_map (Some 25) = Undefined
   \<and> fst (getTileProperties tileset_A (Some 25))
       = Val [(''collidable'', JBool False), (''breakable'', JBool False),
              (''type'', Tile_TYPE_NONE), (''flippedX'', JNum 0),
              (''flippedY'', JNum 0), (''rotatedCW'', JNum 0)]
   \<and> tileproperties (snd (getTileProperties tileset_A (Some 25))) 24
       = Some [(''collidable'', JBool False), (''breakable'', JBool False),
               (''type'', Tile_TYPE_NONE), (''flippedX'', JNum 0),
               (''flippedY'', JNum 0), (''rotatedCW'', JNum 0)]"
proof -
  have h1: "lastgid tileset_A < unflag 25"
    and h2: "firstgid tileset_A \<le> lastgid tileset_A + 1"
    by (simp_all add: unflag_eq example_ranges)
  have h3: "tileproperties tileset_A (unflag 25 - firstgid tileset_A) = None"
    by (simp add: tileset_A_def grid_tileset_def)
  have nb: "\<not> contains tileset_B (Some 25)"
    by (simp add: contains_iff unflag_eq example_ranges)
  then have h4: "\<forall>u \<in> set (m_tilesets two_tileset_map). u = tileset_A \<or> \<not> contains u (Some 25)"
    by (simp add: two_tileset_map_def)
  from ownership_check_one_sided [OF h1 h2 h3 h4] h1 h2 h3 nb show ?thesis
    by (simp add: unflag_eq example_ranges flag_fields_bits default_properties_def bit_iff_odd)
qed

text \<open>
  C6 as stated fails for \<open>getTileTexture\<close>: tileset A has 16 textures, and for gid 25,
  which is defined and not below \<open>firstgid\<close>, the result is \<open>undefined\<close>, because 25 is
  above \<open>lastgid\<close>.
\<close>

theorem getTileTexture_none_counterexample:
  "TiledTileset example_env (example_settings ''A'' 1 (128, 128)) = Inr tileset_A
   \<and> isNone (getTileTexture tileset_A (Some 25))
   \<and> \<not> unflag 25 < firstgid tileset_A
   \<and> lastgid tileset_A < unflag 25"
  using A_built
  by (simp add: getTileTexture_def unflag_eq example_ranges)
    (simp add: tileset_A_def grid_tileset_def)

section \<open>Building the map\<close>

lemma TiledTileset_isl:
  "isl (TiledTileset e s) \<longleftrightarrow> assetCache e (s_name s @ ''_texture'') = None"
  by (simp add: TiledTileset_def Let_def split: option.splits)

lemma TiledTileset_Inl:
  "TiledTileset e s = Inl x \<Longrightarrow>
     x = Throw preload_message \<and> assetCache e (s_name s @ ''_texture'') = None"
  by (simp add: TiledTileset_def Let_def split: option.splits)

lemma TiledTileset_missing:
  "assetCache e (s_name s @ ''_texture'') = None \<Longrightarrow> TiledTileset e s = Inl (Throw preload_message)"
  by (simp add: TiledTileset_def)

lemma build_tilesets_missing:
  assumes "s \<in> set ss" and "assetCache e (s_name s @ ''_texture'') = None"
  shows "build_tilesets e ss acc = Inl (Throw preload_message)"
  using assms
proof (induction ss arbitrary: acc)
  case Nil
  then show ?case by simp
next
  case (Cons a ss)
  show ?case
  proof (cases "TiledTileset e a")
    case (Inl x)
    then show ?thesis using TiledTileset_Inl [OF Inl] by simp
  next
    case (Inr t)
    then have "assetCache e (s_name a @ ''_texture'') \<noteq> None"
      using TiledTileset_isl [of e a] by auto
    with Cons.prems have "s \<in> set ss" by auto
    with Cons Inr show ?thesis by simp
  qed
qed

lemma build_tilesets_loaded:
  assumes "\<forall>s \<in> set ss. assetCache e (s_name s @ ''_texture'') \<noteq> None"
  shows "\<exists>tss. build_tilesets e ss acc = Inr tss"
  using assms
proof (induction ss arbitrary: acc)
  case Nil
  then show ?case by simp
next
  case (Cons a ss)
  then have "\<not> isl (TiledTileset e a)"
    by (simp add: TiledTileset_isl)
  then obtain t where "TiledTileset e a = Inr t"
    by (cases "TiledTileset e a") simp_all
  with Cons show ?case by simp
qed

text \<open>
  C8. The tileset constructor throws exactly when the asset cache has no entry under
  the tileset's name followed by \<open>_texture\<close>; the check is its first statement, so the
  result is then the thrown message and no tileset. The map constructor builds the
  tilesets itself: when one of the description's tilesets is missing from the cache
  the map constructor ends with the same throw and no map, and when none is missing
  it returns a map.
\<close>

theorem missing_asset_aborts:
  "(isl (TiledTileset e s) \<longleftrightarrow> assetCache e (s_name s @ ''_texture'') = None)
   \<and> (assetCache e (s_name s @ ''_texture'') = None
        \<longrightarrow> TiledTileset e s = Inl (Throw preload_message))
   \<and> (s \<in> set (d_tilesets m) \<and> assetCache e (s_name s @ ''_texture'') = None
        \<longrightarrow> TiledMap e m = Inl (Throw preload_message))
   \<and> ((\<forall>s' \<in> set (d_tilesets m). assetCache e (s_name s' @ ''_texture'') \<noteq> None)
        \<longrightarrow> \<not> isl (TiledMap e m))"
proof -
  have a: "TiledMap e m = Inl (Throw preload_message)"
    if "s \<in> set (d_tilesets m)" and "assetCache e (s_name s @ ''_texture'') = None"
    using build_tilesets_missing [OF that, of "[]"]
    by (simp add: TiledMap_def Let_def)
  have b: "\<not> isl (TiledMap e m)"
    if "\<forall>s' \<in> set (d_tilesets m). assetCache e (s_name s' @ ''_texture'') \<noteq> None"
    using build_tilesets_loaded [OF that, of "[]"]
    by (auto simp add: TiledMap_def Let_def)
  from a b show ?thesis
    by (simp add: TiledTileset_isl TiledTileset_missing)
qed

theorem missing_asset_aborts_witness:
  "assetCache example_env (s_name (example_settings ''Z'' 25 (64, 64)) @ ''_texture'') = None
   \<and> TiledTileset example_env (example_settings ''Z'' 25 (64, 64)) = Inl (Throw preload_message)
   \<and> TiledMap example_env
        (example_map None
           [example_settings ''A'' 1 (128, 128), example_settings ''Z'' 25 (64, 64)] [])
       = Inl (Throw preload_message)
   \<and> assetCache example_env (s_name (example_settings ''A'' 1 (128, 128)) @ ''_texture'')
       \<noteq> None
   \<and> \<not> isl (TiledTileset example_env (example_settings ''A'' 1 (128, 128)))
   \<and> \<not> isl (TiledMap example_env
        (example_map None [example_settings ''A'' 1 (128, 128)] []))"
  using missing_asset_aborts [of example_env "example_settings ''Z'' 25 (64, 64)"
      "example_map None
         [example_settings ''A'' 1 (128, 128), example_settings ''Z'' 25 (64, 64)] []"]
    missing_asset_aborts [of example_env "example_settings ''A'' 1 (128, 128)"
      "example_map None [example_settings ''A'' 1 (128, 128)] []"]
  by (simp add: example_env_def example_settings_def example_map_def)

lemma TiledMap_Inr_fields:
  assumes "TiledMap e m = Inr mp"
  shows "m_properties mp =
           (case parseTiledProperties e (d_properties m) of None \<Rightarrow> [] | Some p \<Rightarrow> p)"
    and "m_size mp = (d_width m, d_height m)"
    and "m_scale mp = (or_else (map_of (m_properties mp) ''scale'') (JNum 1),
                       or_else (map_of (m_properties mp) ''scale'') (JNum 1))"
    and "m_scaledTileSize mp =
           (js_times (to_double (d_tilewidth m)) (ToNumber e (fst (m_scale mp))),
            js_times (to_double (d_tileheight m)) (ToNumber e (snd (m_scale mp))))"
    and "m_realSize mp =
           (js_times (to_double (fst (m_size mp))) (fst (m_scaledTileSize mp)),
            js_times (to_double (snd (m_size mp))) (snd (m_scaledTileSize mp)))"
    and "m_children mp = add_layers (d_layers m) None []"
  using assms
  by (auto simp add: TiledMap_def Let_def Map_size_def split: sum.splits)

lemma js_times_NaN: "js_times x NaN = NaN"
  by (cases x) simp_all

lemma scaled_product_exact:
  assumes r: "r \<in> {1, 1 / 2, 2}"
    and t: "\<bar>t\<bar> < 2 ^ 52" and wt: "\<bar>w * t\<bar> < 2 ^ 52" and w: "\<bar>w\<bar> < 2 ^ 53"
  shows "js_times (to_double (of_int w)) (js_times (to_double (of_int t)) (to_double r))
           = Fin (of_int w * of_int t * r)"
proof -
  from r obtain k :: int where k: "r = 2 powi k" "- 1 \<le> k" "k \<le> 1"
  proof -
    from r consider "r = 1" | "r = 1 / 2" | "r = 2" by auto
    then show thesis
    proof cases
      case 1
      then show ?thesis using that [of 0] by simp
    next
      case 2
      then show ?thesis using that [of "- 1"] by (simp add: power_int_minus_divide)
    next
      case 3
      then show ?thesis using that [of 1] by simp
    qed
  qed
  from t have t': "\<bar>t\<bar> < 2 ^ 53" by simp
  from wt have wt': "\<bar>w * t\<bar> < 2 ^ 53" by simp
  have "to_double r = Fin r"
    using k by (intro to_double_exact [of _ 1 k]) simp_all
  moreover have "to_double (of_int t) = Fin (of_int t)"
    using t' by (rule to_double_of_int)
  moreover have "to_double (of_int w) = Fin (of_int w)"
    using w by (rule to_double_of_int)
  moreover have "to_double (of_int t * r) = Fin (of_int t * r)"
    using k t' by (intro to_double_exact [of _ t k]) simp_all
  moreover have "to_double (of_int w * (of_int t * r)) = Fin (of_int w * (of_int t * r))"
    using k wt' by (intro to_double_exact [of _ "w * t" k]) simp_all
  ultimately show ?thesis
    by (simp add: mult.assoc)
qed

lemma sized_map_built:
  "TiledMap example_env (sized_map w tw v) =
     Inr \<lparr> m_size = (w, 8), m_properties = [(''scale'', v)],
           m_scale = (or_else (Some v) (JNum 1), or_else (Some v) (JNum 1)),
           m_tileSize = (tw, 32), m_orientation = ''orthogonal'', m_version = 1,
           m_backgroundColor = None, m_tilesets = [],
           m_scaledTileSize =
             (js_times (to_double tw) (ToNumber example_env (or_else (Some v) (JNum 1))),
              js_times (to_double 32) (ToNumber example_env (or_else (Some v) (JNum 1)))),
           m_realSize =
             (js_times (to_double w)
                (js_times (to_double tw) (ToNumber example_env (or_else (Some v) (JNum 1)))),
              js_times (to_double 8)
                (js_times (to_double 32) (ToNumber example_env (or_else (Some v) (JNum 1))))),
           m_children = [], m_showPhysics = False \<rparr>"
  by (simp add: TiledMap_def sized_map_def example_map_def Let_def Map_size_def example_env_sel)

lemma sized_map_example: "sized_map 10 32 v = example_map (Some [(''scale'', v)]) [] []"
  by (simp add: sized_map_def example_map_def)

lemma sized_map_Inr:
  "TiledMap example_env (sized_map w tw v) = Inr (projr (TiledMap example_env (sized_map w tw v)))"
  by (simp add: sized_map_built)

lemma sized_map_fields:
  "d_width (sized_map w tw v) = w" "d_tilewidth (sized_map w tw v) = tw"
  "d_height (sized_map w tw v) = 8" "d_tileheight (sized_map w tw v) = 32"
  "m_properties (projr (TiledMap example_env (sized_map w tw v))) = [(''scale'', v)]"
  by (simp_all add: sized_map_built) (simp_all add: sized_map_def example_map_def)

lemma seven_point_two: "to_double (36 / 5) = Fin (8106479329266893 / 2 ^ 50)"
  by (rule trans [OF to_double_at [of 2 "36 / 5" "- 50" "8106479329266893 / 2 ^ 50"]])
     (simp_all add: round_half_even_def Let_def floor_numeral_quotient)

text \<open>
  C10, as the code has it. In a constructed map, \<open>realSize\<close> is in each dimension
  \<open>mapSize * (tileSize * scale)\<close>: two multiplications of doubles, the tile size by the
  scale first, each product rounded to the nearest double. The scale is the parsed
  \<open>scale\<close> custom property when that is a number other than 0, and 1 when the
  property is absent, 0, \<open>false\<close>, \<open>true\<close> or the empty string. A non-empty string is
  not replaced by 1: the multiplication converts it to a number, so a string that is
  not numeric makes \<open>realSize\<close> NaN. When the map size and the tile size are integers
  below \<open>2 ^ 52\<close> with a product below \<open>2 ^ 52\<close>, and the scale is 1, 0.5 or 2 (or
  defaults to 1), neither product is rounded and \<open>realSize\<close> is the map size times the
  tile size times the scale.
\<close>

theorem realSize_scale:
  assumes "TiledMap e m = Inr mp"
  shows "(map_of (m_properties mp) ''scale'' = Some (JNum r) \<and> r \<noteq> 0
          \<longrightarrow> m_realSize mp =
                (js_times (to_double (d_width m))
                   (js_times (to_double (d_tilewidth m)) (to_double r)),
                 js_times (to_double (d_height m))
                   (js_times (to_double (d_tileheight m)) (to_double r))))
    \<and> (map_of (m_properties mp) ''scale'' \<in> {None, Some (JNum 0), Some (JBool False),
            Some (JStr []), Some (JBool True)}
          \<longrightarrow> m_realSize mp =
                (js_times (to_double (d_width m))
                   (js_times (to_double (d_tilewidth m)) (Fin 1)),
                 js_times (to_double (d_height m))
                   (js_times (to_double (d_tileheight m)) (Fin 1))))
    \<and> (map_of (m_properties mp) ''scale'' = Some (JStr s) \<and> s \<noteq> []
          \<longrightarrow> m_realSize mp =
                (js_times (to_double (d_width m))
                   (js_times (to_double (d_tilewidth m)) (StringToNumber e s)),
                 js_times (to_double (d_height m))
                   (js_times (to_double (d_tileheight m)) (StringToNumber e s)))
              \<and> (StringToNumber e s = NaN \<longrightarrow> m_realSize mp = (NaN, NaN)))
    \<and> ((map_of (m_properties mp) ''scale'' = Some (JNum r) \<and> r \<in> {1, 1 / 2, 2}
          \<or> map_of (m_properties mp) ''scale'' \<in> {None, Some (JNum 0), Some (JBool False),
               Some (JStr []), Some (JBool True)} \<and> r = 1)
         \<and> d_width m = of_int w \<and> d_tilewidth m = of_int tw
         \<and> \<bar>w\<bar> < 2 ^ 52 \<and> \<bar>tw\<bar> < 2 ^ 52 \<and> \<bar>w * tw\<bar> < 2 ^ 52
          \<longrightarrow> fst (m_realSize mp) = Fin (d_width m * d_tilewidth m * r))
    \<and> ((map_of (m_properties mp) ''scale'' = Some (JNum r) \<and> r \<in> {1, 1 / 2, 2}
          \<or> map_of (m_properties mp) ''scale'' \<in> {None, Some (JNum 0), Some (JBool False),
               Some (JStr []), Some (JBool True)} \<and> r = 1)
         \<and> d_height m = of_int h \<and> d_tileheight m = of_int th
         \<and> \<bar>h\<bar> < 2 ^ 52 \<and> \<bar>th\<bar> < 2 ^ 52 \<and> \<bar>h * th\<bar> < 2 ^ 52
          \<longrightarrow> snd (m_realSize mp) = Fin (d_height m * d_tileheight m * r))
    \<and> m_properties mp =
        (case parseTiledProperties e (d_properties m) of None \<Rightarrow> [] | Some p \<Rightarrow> p)"
proof -
  note f = TiledMap_Inr_fields [OF assms]
  let ?sc = "ToNumber e (or_else (map_of (m_properties mp) ''scale'') (JNum 1))"
  have rs: "m_realSize mp =
      (js_times (to_double (d_width m)) (js_times (to_double (d_tilewidth m)) ?sc),
       js_times (to_double (d_height m)) (js_times (to_double (d_tileheight m)) ?sc))"
    by (simp only: f(2-5) fst_conv snd_conv)
  have one: "to_double 1 = Fin 1"
    by (rule to_double_examples)
  have num: "?sc = to_double r"
    if "map_of (m_properties mp) ''scale'' = Some (JNum r)" and "r \<noteq> 0"
    using that by (simp add: or_else_def ToNumber_def)
  have dflt: "?sc = Fin 1"
    if "map_of (m_properties mp) ''scale'' \<in> {None, Some (JNum 0), Some (JBool False),
            Some (JStr []), Some (JBool True)}"
    using that one by (auto simp add: or_else_def ToNumber_def)
  have str: "?sc = StringToNumber e s"
    if "map_of (m_properties mp) ''scale'' = Some (JStr s)" and "s \<noteq> []"
    using that by (simp add: or_else_def ToNumber_def)
  have eff: "?sc = to_double r \<and> r \<in> {1, 1 / 2, 2}"
    if "map_of (m_properties mp) ''scale'' = Some (JNum r) \<and> r \<in> {1, 1 / 2, 2}
          \<or> map_of (m_properties mp) ''scale'' \<in> {None, Some (JNum 0), Some (JBool False),
               Some (JStr []), Some (JBool True)} \<and> r = 1"
    using that num dflt one by auto
  have c1: "map_of (m_properties mp) ''scale'' = Some (JNum r) \<and> r \<noteq> 0
          \<longrightarrow> m_realSize mp =
                (js_times (to_double (d_width m))
                   (js_times (to_double (d_tilewidth m)) (to_double r)),
                 js_times (to_double (d_height m))
                   (js_times (to_double (d_tileheight m)) (to_double r)))"
    using num by (simp only: rs) simp
  have c2: "map_of (m_properties mp) ''scale'' \<in> {None, Some (JNum 0), Some (JBool False),
            Some (JStr []), Some (JBool True)}
          \<longrightarrow> m_realSize mp =
                (js_times (to_double (d_width m))
                   (js_times (to_double (d_tilewidth m)) (Fin 1)),
                 js_times (to_double (d_height m))
                   (js_times (to_double (d_tileheight m)) (Fin 1)))"
    using dflt by (simp only: rs) simp
  have c3: "map_of (m_properties mp) ''scale'' = Some (JStr s) \<and> s \<noteq> []
          \<longrightarrow> m_realSize mp =
                (js_times (to_double (d_width m))
                   (js_times (to_double (d_tilewidth m)) (StringToNumber e s)),
                 js_times (to_double (d_height m))
                   (js_times (to_double (d_tileheight m)) (StringToNumber e s)))
              \<and> (StringToNumber e s = NaN \<longrightarrow> m_realSize mp = (NaN, NaN))"
    using str by (simp add: rs js_times_NaN)
  have c4: "fst (m_realSize mp) = Fin (d_width m * d_tilewidth m * r)"
    if "map_of (m_properties mp) ''scale'' = Some (JNum r) \<and> r \<in> {1, 1 / 2, 2}
          \<or> map_of (m_properties mp) ''scale'' \<in> {None, Some (JNum 0), Some (JBool False),
               Some (JStr []), Some (JBool True)} \<and> r = 1"
      and "d_width m = of_int w" and "d_tilewidth m = of_int tw"
      and "\<bar>w\<bar> < 2 ^ 52" and "\<bar>tw\<bar> < 2 ^ 52" and "\<bar>w * tw\<bar> < 2 ^ 52"
  proof -
    from that(4) have "\<bar>w\<bar> < 2 ^ 53" by simp
    with eff [OF that(1)] scaled_product_exact [of r tw w] that(2,3,5,6)
    show ?thesis by (simp only: rs fst_conv)
  qed
  have c5: "snd (m_realSize mp) = Fin (d_height m * d_tileheight m * r)"
    if "map_of (m_properties mp) ''scale'' = Some (JNum r) \<and> r \<in> {1, 1 / 2, 2}
          \<or> map_of (m_properties mp) ''scale'' \<in> {None, Some (JNum 0), Some (JBool False),
               Some (JStr []), Some (JBool True)} \<and> r = 1"
      and "d_height m = of_int h" and "d_tileheight m = of_int th"
      and "\<bar>h\<bar> < 2 ^ 52" and "\<bar>th\<bar> < 2 ^ 52" and "\<bar>h * th\<bar> < 2 ^ 52"
  proof -
    from that(4) have "\<bar>h\<bar> < 2 ^ 53" by simp
    with eff [OF that(1)] scaled_product_exact [of r th h] that(2,3,5,6)
    show ?thesis by (simp only: rs snd_conv)
  qed
  from c1 c2 c3 c4 c5 f(1) show ?thesis
    by blast
qed

theorem realSize_scale_witness:
  "m_realSize (projr (TiledMap example_env (example_map (Some [(''scale'', JNum (1 / 2))]) [] [])))
     = (Fin 160, Fin 128)
   \<and> m_realSize (projr (TiledMap example_env (example_map (Some [(''scale'', JNum 1)]) [] [])))
     = (Fin 320, Fin 256)
   \<and> m_realSize (projr (TiledMap example_env (example_map (Some [(''scale'', JNum 2)]) [] [])))
     = (Fin 640, Fin 512)
   \<and> m_realSize (projr (TiledMap example_env (example_map (Some [(''scale'', JBool False)]) [] [])))
     = (Fin 320, Fin 256)
   \<and> m_realSize (projr (TiledMap example_env (example_map (Some [(''scale'', JStr ''big'')]) [] [])))
     = (NaN, NaN)"
proof -
  note t = realSize_scale [OF sized_map_Inr]
  note x = t [THEN conjunct2, THEN conjunct2, THEN conjunct2, THEN conjunct1, rule_format]
  note y = t [THEN conjunct2, THEN conjunct2, THEN conjunct2, THEN conjunct2, THEN conjunct1,
      rule_format]
  note z = t [THEN conjunct2, THEN conjunct2, THEN conjunct1, rule_format]
  have half: "m_realSize (projr (TiledMap example_env (sized_map 10 32 (JNum (1 / 2)))))
               = (Fin 160, Fin 128)"
    using x [of 10 32 "JNum (1 / 2)" "1 / 2" 10 32] y [of 10 32 "JNum (1 / 2)" "1 / 2" 8 32]
    by (simp add: sized_map_fields prod_eq_iff)
  have one: "m_realSize (projr (TiledMap example_env (sized_map 10 32 (JNum 1))))
               = (Fin 320, Fin 256)"
    using x [of 10 32 "JNum 1" 1 10 32] y [of 10 32 "JNum 1" 1 8 32]
    by (simp add: sized_map_fields prod_eq_iff)
  have two: "m_realSize (projr (TiledMap example_env (sized_map 10 32 (JNum 2))))
               = (Fin 640, Fin 512)"
    using x [of 10 32 "JNum 2" 2 10 32] y [of 10 32 "JNum 2" 2 8 32]
    by (simp add: sized_map_fields prod_eq_iff)
  have dflt: "m_realSize (projr (TiledMap example_env (sized_map 10 32 (JBool False))))
               = (Fin 320, Fin 256)"
    using x [of 10 32 "JBool False" 1 10 32] y [of 10 32 "JBool False" 1 8 32]
    by (simp add: sized_map_fields prod_eq_iff)
  have str: "m_realSize (projr (TiledMap example_env (sized_map 10 32 (JStr ''big''))))
               = (NaN, NaN)"
    using z [of 10 32 "JStr ''big''" "''big''", THEN conjunct2, rule_format]
    by (simp add: sized_map_fields example_env_sel)
  from half one two dflt str show ?thesis
    by (simp add: sized_map_example)
qed

text \<open>
  C10 as stated fails for the scale 0, a number, which the constructor replaces by 1:
  a map of 10 x 8 tiles of 32 x 32 pixels gets the real size 320 x 256, not 0 x 0.
  It fails for a non-numeric string such as \<open>big\<close>, for which the real size is NaN,
  not 320 x 256. And for a scale such as 0.1 the two rounded products differ from the
  product of the three numbers: a map 3 tiles wide with tiles 24 pixels wide and scale
  0.1 gets the real width 7.200000000000001, while the product 7.2 rounds to the
  double 7.2, which is also what \<open>(3 * 24) * 0.1\<close> gives.
\<close>

theorem realSize_scale_counterexample:
  "\<not> isl (TiledMap example_env (example_map (Some [(''scale'', JNum 0)]) [] []))
   \<and> m_realSize (projr (TiledMap example_env (example_map (Some [(''scale'', JNum 0)]) [] [])))
     = (Fin 320, Fin 256)
   \<and> spec_realSize (example_map (Some [(''scale'', JNum 0)]) [] []) (Some (JNum 0))
     = (Fin 0, Fin 0)
   \<and> \<not> isl (TiledMap example_env (example_map (Some [(''scale'', JStr ''big'')]) [] []))
   \<and> m_realSize (projr
         (TiledMap example_env (example_map (Some [(''scale'', JStr ''big'')]) [] [])))
     = (NaN, NaN)
   \<and> spec_realSize (example_map (Some [(''scale'', JStr ''big'')]) [] []) (Some (JStr ''big''))
     = (Fin 320, Fin 256)
   \<and> \<not> isl (TiledMap example_env (sized_map 3 24 (JNum (1 / 10))))
   \<and> fst (m_realSize (projr (TiledMap example_env (sized_map 3 24 (JNum (1 / 10))))))
     = Fin (32425917317067576 / 2 ^ 52)
   \<and> fst (spec_realSize (sized_map 3 24 (JNum (1 / 10))) (Some (JNum (1 / 10))))
     = Fin (36 / 5)
   \<and> to_double (36 / 5) = Fin (32425917317067572 / 2 ^ 52)
   \<and> js_times (js_times (to_double 3) (to_double 24)) (to_double (1 / 10))
     = Fin (32425917317067572 / 2 ^ 52)"
proof -
  have zero: "m_realSize (projr (TiledMap example_env (sized_map 10 32 (JNum 0))))
     = (Fin 320, Fin 256)"
    and big: "m_realSize (projr (TiledMap example_env (sized_map 10 32 (JStr ''big''))))
     = (NaN, NaN)"
    by (simp_all add: sized_map_built or_else_def ToNumber_def example_env_sel
        to_double_examples)
  have three: "to_double 3 = Fin 3" and tf: "to_double 24 = Fin 24"
    and st: "to_double 72 = Fin 72"
    using to_double_of_int [of 3] to_double_of_int [of 24] to_double_of_int [of 72]
    by simp_all
  have "fst (m_realSize (projr (TiledMap example_env (sized_map 3 24 (JNum (1 / 10))))))
     = js_times (to_double 3) (js_times (to_double 24) (to_double (1 / 10)))"
    by (simp add: sized_map_built or_else_def ToNumber_def)
  also have "\<dots> = js_times (Fin 3) (js_times (Fin 24) (Fin double_tenth))"
    by (simp only: three tf tenth_is_double)
  also have "js_times (Fin 24) (Fin double_tenth) = Fin (5404319552844596 / 2 ^ 51)"
    by (simp only: js_times.simps tenth_times_24)
  also have "js_times (Fin 3) (Fin (5404319552844596 / 2 ^ 51)) = Fin (8106479329266894 / 2 ^ 50)"
    by (simp only: js_times.simps three_times)
  finally have tenth:
    "fst (m_realSize (projr (TiledMap example_env (sized_map 3 24 (JNum (1 / 10))))))
     = Fin (32425917317067576 / 2 ^ 52)"
    by simp
  have "js_times (js_times (to_double 3) (to_double 24)) (to_double (1 / 10))
     = js_times (js_times (Fin 3) (Fin 24)) (Fin double_tenth)"
    by (simp only: three tf tenth_is_double)
  also have "js_times (Fin 3) (Fin 24) = Fin 72"
    using st by simp
  also have "js_times (Fin 72) (Fin double_tenth) = Fin (8106479329266893 / 2 ^ 50)"
    by (simp only: js_times.simps tenth_times_72)
  finally have ltr: "js_times (js_times (to_double 3) (to_double 24)) (to_double (1 / 10))
     = Fin (32425917317067572 / 2 ^ 52)"
    by simp
  have nearest: "to_double (36 / 5) = Fin (32425917317067572 / 2 ^ 52)"
    using seven_point_two by simp
  have spec: "fst (spec_realSize (sized_map 3 24 (JNum (1 / 10))) (Some (JNum (1 / 10))))
     = Fin (36 / 5)"
    by (simp add: spec_realSize_def spec_scale_def sized_map_fields)
  have isl: "\<not> isl (TiledMap example_env (sized_map w tw v))" for w tw v
    by (simp add: sized_map_built)
  from zero big tenth ltr nearest spec isl [of 10 32 "JNum 0"] isl [of 10 32 "JStr ''big''"]
    isl [of 3 24 "JNum (1 / 10)"]
  show ?thesis
    by (simp add: sized_map_example spec_realSize_def spec_scale_def example_map_def)
qed

lemma add_layers_length: "length (add_layers ls lyr ch) = length ch + length ls"
  by (induction ls arbitrary: lyr ch) (simp_all add: Let_def)

text \<open>
  C1 does not hold of the code. For a layer descriptor of an unrecognised type the
  loop still calls \<open>addChild\<close>, with what the variable \<open>lyr\<close> holds: the node built for
  the nearest recognised layer before it, or \<open>undefined\<close> when there is none. With a
  tile layer followed by a layer of type \<open>unknown\<close>, \<open>addChild\<close> is called twice with
  the tile layer's node; with a single layer of type \<open>unknown\<close> it is called with
  \<open>undefined\<close>.
\<close>

theorem unknown_layer_addChild:
  "\<not> isl (TiledMap example_env
        (example_map None []
           [\<lparr>ltype = ''tilelayer'', lname = ''ground''\<rparr>, \<lparr>ltype = ''unknown'', lname = ''x''\<rparr>]))
   \<and> m_children (projr (TiledMap example_env
        (example_map None []
           [\<lparr>ltype = ''tilelayer'', lname = ''ground''\<rparr>, \<lparr>ltype = ''unknown'', lname = ''x''\<rparr>])))
     = [Some (TiledLayer \<lparr>ltype = ''tilelayer'', lname = ''ground''\<rparr>),
        Some (TiledLayer \<lparr>ltype = ''tilelayer'', lname = ''ground''\<rparr>)]
   \<and> \<not> isl (TiledMap example_env
        (example_map None [] [\<lparr>ltype = ''unknown'', lname = ''x''\<rparr>]))
   \<and> m_children (projr (TiledMap example_env
        (example_map None [] [\<lparr>ltype = ''unknown'', lname = ''x''\<rparr>])))
     = [None]
   \<and> m_children (projr (TiledMap example_env
        (example_map None [] [\<lparr>ltype = ''tilelayer'', lname = ''ground''\<rparr>])))
     = [Some (TiledLayer \<lparr>ltype = ''tilelayer'', lname = ''ground''\<rparr>)]"
  by (simp add: TiledMap_def example_map_def Let_def layer_switch_def)

end
